theory Spec2Isabelle
  imports Main
begin

unbundle bit_operations_syntax

section \<open>The cursor of pymongo/synchronous/cursor.py\<close>

text \<open>
  A shallow embedding of \<^verbatim>\<open>_ConnectionManager\<close> and \<^verbatim>\<open>Cursor\<close>. A Python attribute
  \<^verbatim>\<open>self._x\<close> is the record field \<open>c_x\<close>; a method that mutates the cursor takes the cursor
  and returns it updated, together with what the method raised or returned. A method that
  talks to the client takes and returns the \<open>world\<close>, whose log lists every call made on
  the client, in order.
\<close>

subsection \<open>Values\<close>

text \<open>
  The values of type \<^verbatim>\<open>Any\<close> that the cursor handles: documents, filters, comments. A
  Python dict keeps its insertion order (\<^verbatim>\<open>next(iter(spec))\<close> reads the first key), so a
  document is an association list.
\<close>

datatype bson =
    BNone
  | BBool bool
  | BInt int
  | BStr string
  | BCode string
  | BList "bson list"
  | BDoc "(string \<times> bson) list"

type_synonym document = "(string \<times> bson) list"

text \<open>Python's truth value: what \<^verbatim>\<open>if x:\<close> tests.\<close>

fun truthy :: "bson \<Rightarrow> bool" where
  "truthy BNone = False"
| "truthy (BBool b) = b"
| "truthy (BInt i) = (i \<noteq> 0)"
| "truthy (BStr s) = (s \<noteq> [])"
| "truthy (BCode s) = (s \<noteq> [])"
| "truthy (BList xs) = (xs \<noteq> [])"
| "truthy (BDoc kvs) = (kvs \<noteq> [])"

definition truthy_doc :: "document option \<Rightarrow> bool" where
  "truthy_doc d = (case d of None \<Rightarrow> False | Some kvs \<Rightarrow> kvs \<noteq> [])"

text \<open>\<^verbatim>\<open>k in d\<close>, \<^verbatim>\<open>d[k] = v\<close> and \<^verbatim>\<open>d.update(e)\<close>.\<close>

definition dict_contains :: "string \<Rightarrow> document \<Rightarrow> bool" where
  "dict_contains k d = (k \<in> set (map fst d))"

fun dict_set :: "document \<Rightarrow> string \<Rightarrow> bson \<Rightarrow> document" where
  "dict_set [] k v = [(k, v)]"
| "dict_set ((k', v') # d) k v =
     (if k' = k then (k, v) # d else (k', v') # dict_set d k v)"

fun dict_update :: "document \<Rightarrow> document \<Rightarrow> document" where
  "dict_update d [] = d"
| "dict_update d ((k, v) # e) = dict_update (dict_set d k v) e"

definition first_key :: "document \<Rightarrow> string option" where
  "first_key d = (case d of [] \<Rightarrow> None | (k, _) # _ \<Rightarrow> Some k)"

subsection \<open>Errors\<close>

datatype error =
    InvalidOperation
  | TypeError
  | ValueError
  | IndexError
  | AssertionError
  | StopIteration
  | OperationFailure "int option" bool
  | ConnectionFailure
  | BaseException

text \<open>
  \<open>OperationFailure code timeout\<close> carries \<^verbatim>\<open>exc.code\<close> and \<^verbatim>\<open>exc.timeout\<close>;
  \<open>BaseException\<close> stands for every other exception that unwinds through an exchange
  (KeyboardInterrupt, CancelledError).
\<close>

subsection \<open>The constants of pymongo.cursor_shared\<close>

text \<open>
  \<^verbatim>\<open>_QUERY_OPTIONS\<close>, \<^verbatim>\<open>CursorType\<close> and \<^verbatim>\<open>_CURSOR_CLOSED_ERRORS\<close> are imported from
  pymongo.cursor_shared; the model takes them as a parameter. \<open>wire_constants\<close> holds the
  flag bits of the OP_QUERY wire message (the docstring of \<^verbatim>\<open>add_option\<close> sets the
  tailable flag with \<^verbatim>\<open>add_option(2)\<close>) and the server's cursor-gone error codes; the
  closed theorems below evaluate the code there.
\<close>

record constants =
  opt_tailable_cursor :: int
  opt_oplog_replay :: int
  opt_no_timeout :: int
  opt_await_data :: int
  opt_exhaust :: int
  opt_partial :: int
  NON_TAILABLE :: int
  TAILABLE :: int
  TAILABLE_AWAIT :: int
  EXHAUST :: int
  CURSOR_CLOSED_ERRORS :: "int list"

definition wire_constants :: constants where
  "wire_constants =
     \<lparr> opt_tailable_cursor = 2, opt_oplog_replay = 8, opt_no_timeout = 16,
       opt_await_data = 32, opt_exhaust = 64, opt_partial = 128,
       NON_TAILABLE = 0, TAILABLE = 2, TAILABLE_AWAIT = 34, EXHAUST = 64,
       CURSOR_CLOSED_ERRORS = [43, 96, 136, 175, 237, 17406, 28617] \<rparr>"

definition code_in_closed :: "constants \<Rightarrow> int option \<Rightarrow> bool" where
  "code_in_closed K code = (case code of None \<Rightarrow> False | Some n \<Rightarrow> n \<in> set (CURSOR_CLOSED_ERRORS K))"

subsection \<open>The client, the exhaust connection manager and the cursor\<close>

text \<open>
  What the cursor reads from \<^verbatim>\<open>self._collection\<close>: the names, and of the client
  \<^verbatim>\<open>is_mongos\<close>, whether \<^verbatim>\<open>_encrypter\<close> is set, the session \<^verbatim>\<open>_ensure_session()\<close> hands
  out (it may be None) and the read preference \<^verbatim>\<open>_read_preference_for\<close> answers. Codec
  options, read concern and the client timeout are passed through unread and are left
  out.
\<close>

record collection =
  coll_database_name :: string
  coll_name :: string
  client_is_mongos :: bool
  client_encrypter :: bool
  client_implicit_session :: "nat option"
  coll_read_preference :: nat

record conn_manager =
  conn :: "nat option"
  more_to_come :: bool

datatype hint_value = HintName string | HintDoc document

definition truthy_hint :: "hint_value option \<Rightarrow> bool" where
  "truthy_hint h = (case h of None \<Rightarrow> False
                    | Some (HintName s) \<Rightarrow> s \<noteq> []
                    | Some (HintDoc d) \<Rightarrow> d \<noteq> [])"

type_synonym address = "string \<times> nat"

record cursor =
  c_collection :: collection
  c_id :: "int option"
  c_exhaust :: bool
  c_sock_mgr :: "conn_manager option"
  c_killed :: bool
  c_session :: "nat option"
  c_explicit_session :: bool
  c_let :: bson
  c_spec :: document
  c_has_filter :: bool
  c_projection :: "bson option"
  c_skip :: int
  c_limit :: int
  c_batch_size :: int
  c_ordering :: "document option"
  c_max_scan :: "int option"
  c_explain :: bool
  c_comment :: bson
  c_max_time_ms :: "int option"
  c_max_await_time_ms :: "int option"
  c_max :: "document option"
  c_min :: "document option"
  c_collation :: "bson option"
  c_return_key :: "bool option"
  c_show_record_id :: "bool option"
  c_allow_disk_use :: "bool option"
  c_snapshot :: "bool option"
  c_hint :: "hint_value option"
  c_empty :: bool
  c_data :: "document list"
  c_address :: "address option"
  c_retrieved :: int
  c_read_preference :: "nat option"
  c_query_flags :: int
  c_cursor_type :: int
  c_dbname :: string
  c_collname :: string
  c_exhaust_checked :: bool

subsection \<open>Construction\<close>

text \<open>
  The arguments of \<^verbatim>\<open>Cursor.__init__\<close>. The helpers of pymongo.helpers_shared,
  pymongo.collation and pymongo.common that normalise \<^verbatim>\<open>projection\<close>, \<^verbatim>\<open>sort\<close>,
  \<^verbatim>\<open>collation\<close>, \<^verbatim>\<open>hint\<close> and \<^verbatim>\<open>let\<close> are outside this file: the arguments are given as
  those helpers return them (\<open>a_sort\<close> is the value of
  \<^verbatim>\<open>sort and helpers_shared._index_document(sort) or None\<close>). The \<^verbatim>\<open>isinstance\<close> checks
  hold by typing.
\<close>

record find_args =
  a_filter :: "document option"
  a_projection :: "bson option"
  a_skip :: int
  a_limit :: int
  a_no_cursor_timeout :: bool
  a_cursor_type :: int
  a_sort :: "document option"
  a_allow_partial_results :: bool
  a_oplog_replay :: bool
  a_batch_size :: int
  a_collation :: "bson option"
  a_hint :: "hint_value option"
  a_max_scan :: "int option"
  a_max_time_ms :: "int option"
  a_max :: "document option"
  a_min :: "document option"
  a_return_key :: "bool option"
  a_show_record_id :: "bool option"
  a_snapshot :: "bool option"
  a_comment :: bson
  a_session :: "nat option"
  a_allow_disk_use :: "bool option"
  a_let :: bson

definition default_args :: "constants \<Rightarrow> find_args" where
  "default_args K =
     \<lparr> a_filter = None, a_projection = None, a_skip = 0, a_limit = 0,
       a_no_cursor_timeout = False, a_cursor_type = NON_TAILABLE K, a_sort = None,
       a_allow_partial_results = False, a_oplog_replay = False, a_batch_size = 0,
       a_collation = None, a_hint = None, a_max_scan = None, a_max_time_ms = None,
       a_max = None, a_min = None, a_return_key = None, a_show_record_id = None,
       a_snapshot = None, a_comment = BNone, a_session = None, a_allow_disk_use = None,
       a_let = BNone \<rparr>"

definition supports_exhaust :: "constants \<Rightarrow> cursor \<Rightarrow> error option \<times> cursor" where
  "supports_exhaust K c =
     (if c_cursor_type c = EXHAUST K then
        (if client_is_mongos (c_collection c) then (Some InvalidOperation, c)
         else if c_limit c \<noteq> 0 then (Some InvalidOperation, c)
         else (None, c\<lparr>c_exhaust := True\<rparr>))
      else (None, c))"

definition init_flags :: "constants \<Rightarrow> find_args \<Rightarrow> int" where
  "init_flags K a =
     (let f0 = a_cursor_type a;
          f1 = (if a_no_cursor_timeout a then f0 OR opt_no_timeout K else f0);
          f2 = (if a_allow_partial_results a then f1 OR opt_partial K else f1)
      in (if a_oplog_replay a then f2 OR opt_oplog_replay K else f2))"

definition init_attrs :: "constants \<Rightarrow> collection \<Rightarrow> find_args \<Rightarrow> cursor" where
  "init_attrs K coll a =
     \<lparr> c_collection = coll, c_id = None, c_exhaust = False, c_sock_mgr = None,
       c_killed = False, c_session = a_session a,
       c_explicit_session = (a_session a \<noteq> None),
       c_let = a_let a,
       c_spec = (case a_filter a of None \<Rightarrow> [] | Some f \<Rightarrow> f),
       c_has_filter = (a_filter a \<noteq> None),
       c_projection = a_projection a, c_skip = a_skip a, c_limit = a_limit a,
       c_batch_size = a_batch_size a, c_ordering = a_sort a, c_max_scan = a_max_scan a,
       c_explain = False, c_comment = a_comment a, c_max_time_ms = a_max_time_ms a,
       c_max_await_time_ms = None, c_max = a_max a, c_min = a_min a,
       c_collation = a_collation a, c_return_key = a_return_key a,
       c_show_record_id = a_show_record_id a, c_allow_disk_use = a_allow_disk_use a,
       c_snapshot = a_snapshot a, c_hint = a_hint a, c_empty = False, c_data = [],
       c_address = None, c_retrieved = 0, c_read_preference = None,
       c_query_flags = init_flags K a, c_cursor_type = a_cursor_type a,
       c_dbname = coll_database_name coll, c_collname = coll_name coll,
       c_exhaust_checked = True \<rparr>"

text \<open>\<^verbatim>\<open>Cursor.__init__\<close> (\<^verbatim>\<open>_IS_SYNC\<close> is True).\<close>

definition init :: "constants \<Rightarrow> collection \<Rightarrow> find_args \<Rightarrow> error + cursor" where
  "init K coll a =
     (if a_cursor_type a \<notin> set [NON_TAILABLE K, TAILABLE K, TAILABLE_AWAIT K, EXHAUST K]
      then Inl ValueError
      else if a_batch_size a < 0 then Inl ValueError
      else (case supports_exhaust K (init_attrs K coll a) of
              (Some e, _) \<Rightarrow> Inl e
            | (None, c) \<Rightarrow> Inr c))"

subsection \<open>The query document\<close>

text \<open>
  \<^verbatim>\<open>Cursor._query_spec\<close>. The keys of \<^verbatim>\<open>operators\<close> are distinct and set in this order, so
  the dict is the concatenation of the entries that are set.
\<close>

definition operators :: "cursor \<Rightarrow> document" where
  "operators c =
     (case c_ordering c of Some d \<Rightarrow> (if d \<noteq> [] then [(''$orderby'', BDoc d)] else []) | None \<Rightarrow> [])
   @ (if c_explain c then [(''$explain'', BBool True)] else [])
   @ (case c_hint c of
        Some (HintName s) \<Rightarrow> (if s \<noteq> [] then [(''$hint'', BStr s)] else [])
      | Some (HintDoc d) \<Rightarrow> (if d \<noteq> [] then [(''$hint'', BDoc d)] else [])
      | None \<Rightarrow> [])
   @ (if truthy (c_let c) then [(''let'', c_let c)] else [])
   @ (if truthy (c_comment c) then [(''$comment'', c_comment c)] else [])
   @ (case c_max_scan c of Some n \<Rightarrow> (if n \<noteq> 0 then [(''$maxScan'', BInt n)] else []) | None \<Rightarrow> [])
   @ (case c_max_time_ms c of Some n \<Rightarrow> [(''$maxTimeMS'', BInt n)] | None \<Rightarrow> [])
   @ (case c_max c of Some d \<Rightarrow> (if d \<noteq> [] then [(''$max'', BDoc d)] else []) | None \<Rightarrow> [])
   @ (case c_min c of Some d \<Rightarrow> (if d \<noteq> [] then [(''$min'', BDoc d)] else []) | None \<Rightarrow> [])
   @ (case c_return_key c of Some b \<Rightarrow> [(''$returnKey'', BBool b)] | None \<Rightarrow> [])
   @ (case c_show_record_id c of Some b \<Rightarrow> [(''$showDiskLoc'', BBool b)] | None \<Rightarrow> [])
   @ (case c_snapshot c of Some b \<Rightarrow> [(''$snapshot'', BBool b)] | None \<Rightarrow> [])"

text \<open>The method returns the document and leaves \<^verbatim>\<open>self\<close> as the second component.\<close>

definition query_spec :: "cursor \<Rightarrow> document \<times> cursor" where
  "query_spec c =
     (let ops = operators c in
      if ops \<noteq> [] then
        (let spec = c_spec c;
             spec' = (if \<not> dict_contains ''$query'' spec then [(''$query'', BDoc spec)] else spec)
         in (dict_update spec' ops, c))
      else if dict_contains ''query'' (c_spec c)
              \<and> (length (c_spec c) = 1 \<or> first_key (c_spec c) = Some ''query'')
      then ([(''$query'', BDoc (c_spec c))], c)
      else (c_spec c, c))"

subsection \<open>The chainable setters\<close>

definition check_okay_to_chain :: "cursor \<Rightarrow> error option" where
  "check_okay_to_chain c =
     (if c_retrieved c \<noteq> 0 \<or> c_id c \<noteq> None then Some InvalidOperation else None)"

text \<open>
  A setter's argument is any Python value. \<^verbatim>\<open>isinstance(v, int)\<close> holds of an int and of
  a bool (True counts as 1), \<^verbatim>\<open>isinstance(v, bool)\<close> of a bool only, and
  \<^verbatim>\<open>isinstance(v, (list, tuple))\<close> of a sequence, for which \<open>BList\<close> stands.
\<close>

definition as_int :: "bson \<Rightarrow> int option" where
  "as_int v = (case v of BInt i \<Rightarrow> Some i | BBool b \<Rightarrow> Some (if b then 1 else 0) | _ \<Rightarrow> None)"

definition as_bool :: "bson \<Rightarrow> bool option" where
  "as_bool v = (case v of BBool b \<Rightarrow> Some b | _ \<Rightarrow> None)"

definition is_sequence :: "bson \<Rightarrow> bool" where
  "is_sequence v = (case v of BList _ \<Rightarrow> True | _ \<Rightarrow> False)"

definition add_option :: "constants \<Rightarrow> cursor \<Rightarrow> bson \<Rightarrow> error option \<times> cursor" where
  "add_option K c v =
     (case as_int v of
        None \<Rightarrow> (Some TypeError, c)
      | Some msk \<Rightarrow>
          (case check_okay_to_chain c of
             Some e \<Rightarrow> (Some e, c)
           | None \<Rightarrow>
               (if msk AND opt_exhaust K \<noteq> 0 then
                  (if c_limit c \<noteq> 0 then (Some InvalidOperation, c)
                   else if client_is_mongos (c_collection c) then (Some InvalidOperation, c)
                   else (None, c\<lparr>c_exhaust := True, c_query_flags := c_query_flags c OR msk\<rparr>))
                else (None, c\<lparr>c_query_flags := c_query_flags c OR msk\<rparr>))))"

definition remove_option :: "constants \<Rightarrow> cursor \<Rightarrow> bson \<Rightarrow> error option \<times> cursor" where
  "remove_option K c v =
     (case as_int v of
        None \<Rightarrow> (Some TypeError, c)
      | Some msk \<Rightarrow>
          (case check_okay_to_chain c of
             Some e \<Rightarrow> (Some e, c)
           | None \<Rightarrow>
               (if msk AND opt_exhaust K \<noteq> 0
                then (None, c\<lparr>c_exhaust := False, c_query_flags := c_query_flags c AND NOT msk\<rparr>)
                else (None, c\<lparr>c_query_flags := c_query_flags c AND NOT msk\<rparr>))))"

definition allow_disk_use :: "cursor \<Rightarrow> bson \<Rightarrow> error option \<times> cursor" where
  "allow_disk_use c v =
     (case as_bool v of
        None \<Rightarrow> (Some TypeError, c)
      | Some b \<Rightarrow>
          (case check_okay_to_chain c of
             Some e \<Rightarrow> (Some e, c)
           | None \<Rightarrow> (None, c\<lparr>c_allow_disk_use := Some b\<rparr>)))"

definition limit :: "cursor \<Rightarrow> bson \<Rightarrow> error option \<times> cursor" where
  "limit c v =
     (case as_int v of
        None \<Rightarrow> (Some TypeError, c)
      | Some n \<Rightarrow>
          (if c_exhaust c then (Some InvalidOperation, c)
           else (case check_okay_to_chain c of
                   Some e \<Rightarrow> (Some e, c)
                 | None \<Rightarrow> (None, c\<lparr>c_empty := False, c_limit := n\<rparr>))))"

definition batch_size :: "cursor \<Rightarrow> bson \<Rightarrow> error option \<times> cursor" where
  "batch_size c v =
     (case as_int v of
        None \<Rightarrow> (Some TypeError, c)
      | Some n \<Rightarrow>
          (if n < 0 then (Some ValueError, c)
           else (case check_okay_to_chain c of
                   Some e \<Rightarrow> (Some e, c)
                 | None \<Rightarrow> (None, c\<lparr>c_batch_size := n\<rparr>))))"

definition skip :: "cursor \<Rightarrow> bson \<Rightarrow> error option \<times> cursor" where
  "skip c v =
     (case as_int v of
        None \<Rightarrow> (Some TypeError, c)
      | Some n \<Rightarrow>
          (if n < 0 then (Some ValueError, c)
           else (case check_okay_to_chain c of
                   Some e \<Rightarrow> (Some e, c)
                 | None \<Rightarrow> (None, c\<lparr>c_skip := n\<rparr>))))"

definition max_time_ms :: "cursor \<Rightarrow> bson \<Rightarrow> error option \<times> cursor" where
  "max_time_ms c v =
     (if as_int v = None \<and> v \<noteq> BNone then (Some TypeError, c)
      else (case check_okay_to_chain c of
              Some e \<Rightarrow> (Some e, c)
            | None \<Rightarrow> (None, c\<lparr>c_max_time_ms := as_int v\<rparr>)))"

definition max_await_time_ms :: "constants \<Rightarrow> cursor \<Rightarrow> bson \<Rightarrow> error option \<times> cursor" where
  "max_await_time_ms K c v =
     (if as_int v = None \<and> v \<noteq> BNone then (Some TypeError, c)
      else (case check_okay_to_chain c of
              Some e \<Rightarrow> (Some e, c)
            | None \<Rightarrow>
                (if c_query_flags c AND TAILABLE_AWAIT K \<noteq> 0
                 then (None, c\<lparr>c_max_await_time_ms := as_int v\<rparr>)
                 else (None, c))))"

definition max_scan :: "cursor \<Rightarrow> int option \<Rightarrow> error option \<times> cursor" where
  "max_scan c n =
     (case check_okay_to_chain c of
        Some e \<Rightarrow> (Some e, c)
      | None \<Rightarrow> (None, c\<lparr>c_max_scan := n\<rparr>))"

text \<open>
  \<^verbatim>\<open>max\<close> and \<^verbatim>\<open>min\<close> check that the argument is a sequence, then the cursor, and then
  store \<^verbatim>\<open>dict(spec)\<close>; beside the argument they are given what \<^verbatim>\<open>dict\<close> does with it:
  the error it raises or the dict it returns.
\<close>

definition max_bound :: "cursor \<Rightarrow> bson \<Rightarrow> error + document \<Rightarrow> error option \<times> cursor" where
  "max_bound c spec as_dict =
     (if \<not> is_sequence spec then (Some TypeError, c)
      else (case check_okay_to_chain c of
              Some e \<Rightarrow> (Some e, c)
            | None \<Rightarrow> (case as_dict of
                        Inl e \<Rightarrow> (Some e, c)
                      | Inr d \<Rightarrow> (None, c\<lparr>c_max := Some d\<rparr>))))"

definition min_bound :: "cursor \<Rightarrow> bson \<Rightarrow> error + document \<Rightarrow> error option \<times> cursor" where
  "min_bound c spec as_dict =
     (if \<not> is_sequence spec then (Some TypeError, c)
      else (case check_okay_to_chain c of
              Some e \<Rightarrow> (Some e, c)
            | None \<Rightarrow> (case as_dict of
                        Inl e \<Rightarrow> (Some e, c)
                      | Inr d \<Rightarrow> (None, c\<lparr>c_min := Some d\<rparr>))))"

text \<open>
  \<^verbatim>\<open>sort\<close>, \<^verbatim>\<open>hint\<close> and \<^verbatim>\<open>collation\<close> check the cursor first and then call a helper
  of pymongo.helpers_shared or pymongo.collation on the argument; the argument is given
  as what that helper does with it: the error it raises or the value it returns.
\<close>

definition sort_c :: "cursor \<Rightarrow> error + document \<Rightarrow> error option \<times> cursor" where
  "sort_c c keys =
     (case check_okay_to_chain c of
        Some e \<Rightarrow> (Some e, c)
      | None \<Rightarrow> (case keys of
                  Inl e \<Rightarrow> (Some e, c)
                | Inr d \<Rightarrow> (None, c\<lparr>c_ordering := Some d\<rparr>)))"

datatype hint_arg = HintArgNone | HintArgName string | HintArgIndex "error + document"

definition set_hint :: "cursor \<Rightarrow> hint_arg \<Rightarrow> error option \<times> cursor" where
  "set_hint c index =
     (case index of
        HintArgNone \<Rightarrow> (None, c\<lparr>c_hint := None\<rparr>)
      | HintArgName s \<Rightarrow> (None, c\<lparr>c_hint := Some (HintName s)\<rparr>)
      | HintArgIndex (Inl e) \<Rightarrow> (Some e, c)
      | HintArgIndex (Inr d) \<Rightarrow> (None, c\<lparr>c_hint := Some (HintDoc d)\<rparr>))"

definition hint :: "cursor \<Rightarrow> hint_arg \<Rightarrow> error option \<times> cursor" where
  "hint c index =
     (case check_okay_to_chain c of
        Some e \<Rightarrow> (Some e, c)
      | None \<Rightarrow> set_hint c index)"

definition comment :: "cursor \<Rightarrow> bson \<Rightarrow> error option \<times> cursor" where
  "comment c v =
     (case check_okay_to_chain c of
        Some e \<Rightarrow> (Some e, c)
      | None \<Rightarrow> (None, c\<lparr>c_comment := v\<rparr>))"

text \<open>
  \<^verbatim>\<open>where\<close>: the cursor is checked first; a string is then wrapped in \<^verbatim>\<open>Code\<close>, which
  raises TypeError on anything else. With a filter given by the user the spec is copied
  before the key is set, and otherwise the cursor's own dict is updated; in both cases
  \<^verbatim>\<open>self._spec\<close> ends as the spec with \<^verbatim>\<open>$where\<close> set.
\<close>

definition where_js :: "cursor \<Rightarrow> bson \<Rightarrow> error option \<times> cursor" where
  "where_js c code =
     (case check_okay_to_chain c of
        Some e \<Rightarrow> (Some e, c)
      | None \<Rightarrow>
          (case code of
             BCode js \<Rightarrow> (None, c\<lparr>c_spec := dict_set (c_spec c) ''$where'' (BCode js)\<rparr>)
           | BStr js \<Rightarrow> (None, c\<lparr>c_spec := dict_set (c_spec c) ''$where'' (BCode js)\<rparr>)
           | _ \<Rightarrow> (Some TypeError, c)))"

definition collation :: "cursor \<Rightarrow> error + bson option \<Rightarrow> error option \<times> cursor" where
  "collation c v =
     (case check_okay_to_chain c of
        Some e \<Rightarrow> (Some e, c)
      | None \<Rightarrow> (case v of
                  Inl e \<Rightarrow> (Some e, c)
                | Inr col \<Rightarrow> (None, c\<lparr>c_collation := col\<rparr>)))"

text \<open>One call of a chainable setter, with its argument.\<close>

datatype setter =
    Limit bson
  | Skip bson
  | BatchSize bson
  | Sort "error + document"
  | Hint hint_arg
  | Collation "error + bson option"
  | Comment bson
  | MaxTimeMs bson
  | MaxAwaitTimeMs bson
  | Min bson "error + document"
  | Max bson "error + document"
  | MaxScan "int option"
  | AddOption bson
  | RemoveOption bson
  | AllowDiskUse bson
  | Where bson

fun call_setter :: "constants \<Rightarrow> cursor \<Rightarrow> setter \<Rightarrow> error option \<times> cursor" where
  "call_setter K c (Limit v) = limit c v"
| "call_setter K c (Skip v) = skip c v"
| "call_setter K c (BatchSize v) = batch_size c v"
| "call_setter K c (Sort keys) = sort_c c keys"
| "call_setter K c (Hint index) = hint c index"
| "call_setter K c (Collation v) = collation c v"
| "call_setter K c (Comment v) = comment c v"
| "call_setter K c (MaxTimeMs v) = max_time_ms c v"
| "call_setter K c (MaxAwaitTimeMs v) = max_await_time_ms K c v"
| "call_setter K c (Min spec as_dict) = min_bound c spec as_dict"
| "call_setter K c (Max spec as_dict) = max_bound c spec as_dict"
| "call_setter K c (MaxScan n) = max_scan c n"
| "call_setter K c (AddOption v) = add_option K c v"
| "call_setter K c (RemoveOption v) = remove_option K c v"
| "call_setter K c (AllowDiskUse v) = allow_disk_use c v"
| "call_setter K c (Where code) = where_js c code"

text \<open>
  What a setter's checks of its own argument raise, the checks that come before it looks
  at the cursor: TypeError from the \<^verbatim>\<open>isinstance\<close> test, ValueError from the range test of
  \<^verbatim>\<open>batch_size\<close> and \<^verbatim>\<open>skip\<close>.
\<close>

definition int_argument_error :: "bson \<Rightarrow> error option" where
  "int_argument_error v = (if as_int v = None then Some TypeError else None)"

definition natural_argument_error :: "bson \<Rightarrow> error option" where
  "natural_argument_error v =
     (case as_int v of
        None \<Rightarrow> Some TypeError
      | Some n \<Rightarrow> (if n < 0 then Some ValueError else None))"

definition optional_int_argument_error :: "bson \<Rightarrow> error option" where
  "optional_int_argument_error v =
     (if as_int v = None \<and> v \<noteq> BNone then Some TypeError else None)"

fun argument_error :: "setter \<Rightarrow> error option" where
  "argument_error (Limit v) = int_argument_error v"
| "argument_error (Skip v) = natural_argument_error v"
| "argument_error (BatchSize v) = natural_argument_error v"
| "argument_error (MaxTimeMs v) = optional_int_argument_error v"
| "argument_error (MaxAwaitTimeMs v) = optional_int_argument_error v"
| "argument_error (Min spec as_dict) = (if is_sequence spec then None else Some TypeError)"
| "argument_error (Max spec as_dict) = (if is_sequence spec then None else Some TypeError)"
| "argument_error (AddOption v) = int_argument_error v"
| "argument_error (RemoveOption v) = int_argument_error v"
| "argument_error (AllowDiskUse v) = (if as_bool v = None then Some TypeError else None)"
| "argument_error _ = None"

subsection \<open>The client's side of an exchange\<close>

text \<open>
  The operations the cursor hands to \<^verbatim>\<open>client._run_operation\<close>: the \<^verbatim>\<open>_Query\<close> and the
  \<^verbatim>\<open>_GetMore\<close> with the arguments \<^verbatim>\<open>_refresh\<close> builds them from (codec options, read concern
  and the client itself left out).
\<close>

datatype operation =
    Query (q_flags: int) (q_db: string) (q_coll: string) (q_skip: int) (q_spec: document)
          (q_projection: "bson option") (q_read_preference: nat) (q_limit: int)
          (q_batch_size: int) (q_collation: "bson option") (q_session: "nat option")
          (q_allow_disk_use: "bool option") (q_exhaust: bool)
  | GetMore (g_db: string) (g_coll: string) (g_ntoreturn: int) (g_cursor_id: int)
            (g_read_preference: nat) (g_session: "nat option")
            (g_max_await_time_ms: "int option") (g_sock_mgr: "conn_manager option")
            (g_exhaust: bool) (g_comment: bson)

text \<open>
  What the exchange gives back. A response in command form carries the cursor document:
  its id, its \<^verbatim>\<open>firstBatch\<close> or \<^verbatim>\<open>nextBatch\<close> and its \<^verbatim>\<open>ns\<close>; the response to an operation
  named \<^verbatim>\<open>explain\<close> carries the documents only; a legacy reply carries the header's cursor
  id and \<^verbatim>\<open>number_returned\<close> beside the documents. \<open>r_pinned\<close> is set for a
  \<^verbatim>\<open>PinnedResponse\<close>, with its connection and \<^verbatim>\<open>more_to_come\<close>.
\<close>

datatype payload =
    CommandCursor int "document list" "string option"
  | CommandExplain "document list"
  | LegacyReply int int "document list"

record response =
  r_address :: address
  r_pinned :: "(nat \<times> bool) option"
  r_payload :: payload

datatype outcome =
    Reply response
  | RaiseOperationFailure "int option" bool
  | RaiseConnectionFailure
  | RaiseBaseException

text \<open>
  The calls made on the client, in order: an operation run (with the address it is
  pinned to), an implicit session asked for, and what the cleanup entry points do: a
  kill-cursors request (\<open>True\<close> for the locking entry point), a connection returned to
  the pool, an implicit session ended.
\<close>

datatype event =
    Sent operation "address option"
  | EnsureSession
  | KillCursors bool int "(address \<times> string) option"
  | Unpin nat
  | EndSession nat

text \<open>
  The server is a parameter: what the \<open>n\<close>-th exchange answers to the operation sent.
\<close>

type_synonym server = "nat \<Rightarrow> operation \<Rightarrow> outcome"

record world =
  exchanges :: nat
  w_log :: "event list"

definition run_operation :: "server \<Rightarrow> world \<Rightarrow> operation \<Rightarrow> address option \<Rightarrow> outcome \<times> world" where
  "run_operation srv w op addr =
     (srv (exchanges w) op,
      w\<lparr>exchanges := Suc (exchanges w), w_log := w_log w @ [Sent op addr]\<rparr>)"

subsection \<open>The exhaust connection manager\<close>

definition update_exhaust :: "conn_manager \<Rightarrow> bool \<Rightarrow> conn_manager" where
  "update_exhaust m b = m\<lparr>more_to_come := b\<rparr>"

text \<open>\<^verbatim>\<open>_ConnectionManager.close\<close>; \<^verbatim>\<open>conn.unpin()\<close> is the event \<open>Unpin\<close>.\<close>

definition cm_close :: "conn_manager \<Rightarrow> world \<Rightarrow> conn_manager \<times> world" where
  "cm_close m w =
     (case conn m of
        Some cn \<Rightarrow> (m\<lparr>conn := None\<rparr>, w\<lparr>w_log := w_log w @ [Unpin cn]\<rparr>)
      | None \<Rightarrow> (m, w))"

subsection \<open>Cleanup\<close>

text \<open>
  Modelled from the spec: \<^verbatim>\<open>MongoClient._cleanup_cursor_lock\<close> and
  \<^verbatim>\<open>_cleanup_cursor_no_lock\<close>, which are not in this file. Section 4.5: the kill-cursors
  exchange is skipped when no cursor id is handed over; the pinned connection, if held,
  is released to the pool; the session is released unless the caller supplied it.
\<close>

definition cleanup_cursor ::
  "bool \<Rightarrow> int \<Rightarrow> (address \<times> string) option \<Rightarrow> conn_manager option \<Rightarrow> nat option \<Rightarrow> bool
     \<Rightarrow> world \<Rightarrow> world" where
  "cleanup_cursor locked cursor_id addr mgr session explicit w =
     (let w1 = (if cursor_id \<noteq> 0
                then w\<lparr>w_log := w_log w @ [KillCursors locked cursor_id addr]\<rparr> else w);
          w2 = (case mgr of Some m \<Rightarrow> snd (cm_close m w1) | None \<Rightarrow> w1)
      in (case session of
            Some s \<Rightarrow> (if explicit then w2 else w2\<lparr>w_log := w_log w2 @ [EndSession s]\<rparr>)
          | None \<Rightarrow> w2))"

definition prepare_to_die ::
  "cursor \<Rightarrow> bool \<Rightarrow> (error + int \<times> (address \<times> string) option) \<times> cursor" where
  "prepare_to_die c already_killed =
     (let c1 = c\<lparr>c_killed := True\<rparr> in
      (case c_id c1 of
         Some i \<Rightarrow>
           (if i \<noteq> 0 \<and> \<not> already_killed then
              (case c_address c1 of
                 None \<Rightarrow> (Inl AssertionError, c1)
               | Some a \<Rightarrow> (Inr (i, Some (a, c_dbname c1 @ ''.'' @ c_collname c1)), c1))
            else (Inr (0, None), c1))
       | None \<Rightarrow> (Inr (0, None), c1)))"

text \<open>
  \<^verbatim>\<open>_die_no_lock\<close> and \<^verbatim>\<open>_die_lock\<close>, on a cursor whose \<^verbatim>\<open>__init__\<close> has run (the
  AttributeError branch is for one whose \<^verbatim>\<open>__init__\<close> has not).
\<close>

definition die :: "bool \<Rightarrow> cursor \<Rightarrow> world \<Rightarrow> error option \<times> cursor \<times> world" where
  "die locked c w =
     (case prepare_to_die c (c_killed c) of
        (Inl e, c1) \<Rightarrow> (Some e, c1, w)
      | (Inr (cursor_id, addr), c1) \<Rightarrow>
          (let w1 = cleanup_cursor locked cursor_id addr (c_sock_mgr c1) (c_session c1)
                      (c_explicit_session c1) w;
               c2 = (if \<not> c_explicit_session c1 then c1\<lparr>c_session := None\<rparr> else c1)
           in (None, c2\<lparr>c_sock_mgr := None\<rparr>, w1)))"

definition die_no_lock :: "cursor \<Rightarrow> world \<Rightarrow> error option \<times> cursor \<times> world" where
  "die_no_lock c w = die False c w"

definition die_lock :: "cursor \<Rightarrow> world \<Rightarrow> error option \<times> cursor \<times> world" where
  "die_lock c w = die True c w"

definition close :: "cursor \<Rightarrow> world \<Rightarrow> error option \<times> cursor \<times> world" where
  "close c w = die_lock c w"

definition alive :: "cursor \<Rightarrow> bool" where
  "alive c = (c_data c \<noteq> [] \<or> \<not> c_killed c)"

subsection \<open>An exchange and its response\<close>

text \<open>\<^verbatim>\<open>ns.split(".", 1)\<close> unpacked into two names; a name without a dot does not unpack.\<close>

definition split_ns :: "string \<Rightarrow> (string \<times> string) option" where
  "split_ns ns =
     (if CHR ''.'' \<in> set ns
      then Some (takeWhile (\<lambda>x. x \<noteq> CHR ''.'') ns, drop 1 (dropWhile (\<lambda>x. x \<noteq> CHR ''.'') ns))
      else None)"

definition is_find :: "operation \<Rightarrow> bool" where
  "is_find op = (case op of Query _ _ _ _ _ _ _ _ _ _ _ _ _ \<Rightarrow> True
                 | GetMore _ _ _ _ _ _ _ _ _ _ \<Rightarrow> False)"

text \<open>
  The part of \<^verbatim>\<open>_send_message\<close> that reads the response's documents: it sets the cursor
  id, replaces the buffer and advances \<^verbatim>\<open>_retrieved\<close>.
\<close>

definition store_batch :: "cursor \<Rightarrow> operation \<Rightarrow> payload \<Rightarrow> error option \<times> cursor" where
  "store_batch c op p =
     (case p of
        CommandCursor i documents ns \<Rightarrow>
          (let c1 = c\<lparr>c_id := Some i\<rparr>;
               fill = (\<lambda>c'. c'\<lparr>c_data := documents,
                                 c_retrieved := c_retrieved c' + int (length documents)\<rparr>)
           in if is_find op then
                (case ns of
                   Some s \<Rightarrow>
                     (if s \<noteq> [] then
                        (case split_ns s of
                           None \<Rightarrow> (Some ValueError, c1)
                         | Some (db, coll) \<Rightarrow> (None, fill (c1\<lparr>c_dbname := db, c_collname := coll\<rparr>)))
                      else (None, fill c1))
                 | None \<Rightarrow> (None, fill c1))
              else (None, fill c1))
      | CommandExplain docs \<Rightarrow>
          (None, c\<lparr>c_id := Some 0, c_data := docs,
                    c_retrieved := c_retrieved c + int (length docs)\<rparr>)
      | LegacyReply i number_returned docs \<Rightarrow>
          (None, c\<lparr>c_id := Some i, c_data := docs,
                    c_retrieved := c_retrieved c + number_returned\<rparr>))"

text \<open>
  \<^verbatim>\<open>Cursor._send_message\<close>, in three parts: the handler of an OperationFailure, the
  handling of a response, and the method itself. An exception raised by \<^verbatim>\<open>close\<close> inside
  a handler replaces the one being handled. The client keeps \<^verbatim>\<open>more_to_come\<close> of a manager
  it already holds up to date by itself; the cursor never reads it.
\<close>

definition on_operation_failure ::
  "constants \<Rightarrow> cursor \<Rightarrow> world \<Rightarrow> int option \<Rightarrow> bool \<Rightarrow> error option \<times> cursor \<times> world" where
  "on_operation_failure K c w code timeout =
     (let c1 = (if code_in_closed K code \<or> c_exhaust c then c\<lparr>c_killed := True\<rparr> else c)
      in (case (if timeout then die_no_lock c1 w else close c1 w) of
            (Some e, c2, w2) \<Rightarrow> (Some e, c2, w2)
          | (None, c2, w2) \<Rightarrow>
              (if code_in_closed K code \<and> c_query_flags c2 AND opt_tailable_cursor K \<noteq> 0
               then (None, c2, w2)
               else (Some (OperationFailure code timeout), c2, w2))))"

definition close_then_raise :: "error \<Rightarrow> cursor \<Rightarrow> world \<Rightarrow> error option \<times> cursor \<times> world" where
  "close_then_raise exc c w =
     (case close c w of
        (Some e, c2, w2) \<Rightarrow> (Some e, c2, w2)
      | (None, c2, w2) \<Rightarrow> (Some exc, c2, w2))"

definition pin :: "cursor \<Rightarrow> response \<Rightarrow> cursor" where
  "pin c r =
     (case r_pinned r of
        None \<Rightarrow> c
      | Some (cn, mtc) \<Rightarrow>
          (case c_sock_mgr c of
             None \<Rightarrow> c\<lparr>c_sock_mgr := Some \<lparr>conn = Some cn, more_to_come = mtc\<rparr>\<rparr>
           | Some m \<Rightarrow> c))"

definition close_at_limit :: "cursor \<Rightarrow> world \<Rightarrow> error option \<times> cursor \<times> world" where
  "close_at_limit c w =
     (if c_limit c \<noteq> 0 \<and> c_id c \<noteq> None \<and> c_id c \<noteq> Some 0 \<and> c_limit c \<le> c_retrieved c
      then close c w
      else (None, c, w))"

definition on_reply ::
  "cursor \<Rightarrow> world \<Rightarrow> operation \<Rightarrow> response \<Rightarrow> error option \<times> cursor \<times> world" where
  "on_reply c w op r =
     (case store_batch (pin (c\<lparr>c_address := Some (r_address r)\<rparr>) r) op (r_payload r) of
        (Some e, c3) \<Rightarrow> (Some e, c3, w)
      | (None, c3) \<Rightarrow>
          (case (if c_id c3 = Some 0 then close c3 w else (None, c3, w)) of
             (Some e, c4, w4) \<Rightarrow> (Some e, c4, w4)
           | (None, c4, w4) \<Rightarrow> close_at_limit c4 w4))"

definition send_message ::
  "constants \<Rightarrow> server \<Rightarrow> cursor \<Rightarrow> world \<Rightarrow> operation \<Rightarrow> error option \<times> cursor \<times> world" where
  "send_message K srv c w op =
     (if client_encrypter (c_collection c) \<and> c_exhaust c then (Some InvalidOperation, c, w)
      else
        (case run_operation srv w op (c_address c) of
           (RaiseOperationFailure code timeout, w1) \<Rightarrow> on_operation_failure K c w1 code timeout
         | (RaiseConnectionFailure, w1) \<Rightarrow>
             close_then_raise ConnectionFailure (c\<lparr>c_killed := True\<rparr>) w1
         | (RaiseBaseException, w1) \<Rightarrow> close_then_raise BaseException c w1
         | (Reply r, w1) \<Rightarrow> on_reply c w1 op r))"

subsection \<open>Refill and advance\<close>

definition get_read_preference :: "cursor \<Rightarrow> nat \<times> cursor" where
  "get_read_preference c =
     (case c_read_preference c of
        None \<Rightarrow> (coll_read_preference (c_collection c),
                 c\<lparr>c_read_preference := Some (coll_read_preference (c_collection c))\<rparr>)
      | Some rp \<Rightarrow> (rp, c))"

text \<open>The batch size \<^verbatim>\<open>_refresh\<close> asks a getMore for.\<close>

definition getmore_limit :: "cursor \<Rightarrow> int" where
  "getmore_limit c =
     (if c_limit c \<noteq> 0 then
        (if c_batch_size c \<noteq> 0 then min (c_limit c - c_retrieved c) (c_batch_size c)
         else c_limit c - c_retrieved c)
      else c_batch_size c)"

text \<open>
  \<^verbatim>\<open>Cursor._refresh\<close>, with the three things it does before an exchange named: binding a
  session, building the \<^verbatim>\<open>_Query\<close> and building the \<^verbatim>\<open>_GetMore\<close>.
\<close>

definition ensure_session :: "cursor \<Rightarrow> world \<Rightarrow> cursor \<times> world" where
  "ensure_session c w =
     (if c_session c = None
      then (c\<lparr>c_session := client_implicit_session (c_collection c)\<rparr>,
            w\<lparr>w_log := w_log w @ [EnsureSession]\<rparr>)
      else (c, w))"

definition make_query :: "cursor \<Rightarrow> operation \<times> cursor" where
  "make_query c =
     (let (spec, c2) = query_spec c;
          (rp, c3) = get_read_preference c2
      in (Query (c_query_flags c3) (coll_database_name (c_collection c3))
            (coll_name (c_collection c3)) (c_skip c3) spec (c_projection c3) rp (c_limit c3)
            (c_batch_size c3) (c_collation c3) (c_session c3) (c_allow_disk_use c3)
            (c_exhaust c3), c3))"

definition make_getmore :: "cursor \<Rightarrow> int \<Rightarrow> operation \<times> cursor" where
  "make_getmore c i =
     (let lim = getmore_limit c;
          (rp, c3) = get_read_preference c
      in (GetMore (c_dbname c3) (c_collname c3) lim i rp (c_session c3)
            (c_max_await_time_ms c3) (c_sock_mgr c3) (c_exhaust c3) (c_comment c3), c3))"

definition send_and_count ::
  "constants \<Rightarrow> server \<Rightarrow> operation \<times> cursor \<Rightarrow> world \<Rightarrow> (error + nat) \<times> cursor \<times> world" where
  "send_and_count K srv oc w =
     (case send_message K srv (snd oc) w (fst oc) of
        (Some e, c4, w4) \<Rightarrow> (Inl e, c4, w4)
      | (None, c4, w4) \<Rightarrow> (Inr (length (c_data c4)), c4, w4))"

definition refresh ::
  "constants \<Rightarrow> server \<Rightarrow> cursor \<Rightarrow> world \<Rightarrow> (error + nat) \<times> cursor \<times> world" where
  "refresh K srv c w =
     (if c_data c \<noteq> [] \<or> c_killed c then (Inr (length (c_data c)), c, w)
      else
        (case ensure_session c w of
           (c1, w1) \<Rightarrow>
             (case c_id c1 of
                None \<Rightarrow>
                  (if (truthy_doc (c_min c1) \<or> truthy_doc (c_max c1)) \<and> \<not> truthy_hint (c_hint c1)
                   then (Inl InvalidOperation, c1, w1)
                   else send_and_count K srv (make_query c1) w1)
              | Some i \<Rightarrow>
                  (if i \<noteq> 0 then send_and_count K srv (make_getmore c1 i) w1
                   else (Inr (length (c_data c1)), c1, w1)))))"

definition popleft :: "cursor \<Rightarrow> (error + document) \<times> cursor" where
  "popleft c = (case c_data c of
                  [] \<Rightarrow> (Inl IndexError, c)
                | d # ds \<Rightarrow> (Inr d, c\<lparr>c_data := ds\<rparr>))"

definition check_exhaust :: "constants \<Rightarrow> cursor \<Rightarrow> error option \<times> cursor" where
  "check_exhaust K c =
     (if \<not> c_exhaust_checked c then supports_exhaust K (c\<lparr>c_exhaust_checked := True\<rparr>)
      else (None, c))"

text \<open>\<^verbatim>\<open>Cursor.next\<close>.\<close>

definition cursor_next ::
  "constants \<Rightarrow> server \<Rightarrow> cursor \<Rightarrow> world \<Rightarrow> (error + document) \<times> cursor \<times> world" where
  "cursor_next K srv c w =
     (case check_exhaust K c of
        (Some e, c0) \<Rightarrow> (Inl e, c0, w)
      | (None, c0) \<Rightarrow>
          (if c_empty c0 then (Inl StopIteration, c0, w)
           else if c_data c0 \<noteq> [] then (case popleft c0 of (r, c1) \<Rightarrow> (r, c1, w))
           else
             (case refresh K srv c0 w of
                (Inl e, c1, w1) \<Rightarrow> (Inl e, c1, w1)
              | (Inr n, c1, w1) \<Rightarrow>
                  (if n \<noteq> 0 then (case popleft c1 of (r, c2) \<Rightarrow> (r, c2, w1))
                   else (Inl StopIteration, c1, w1)))))"

text \<open>
  \<^verbatim>\<open>Cursor._next_batch\<close>: the list \<^verbatim>\<open>result\<close> is extended in place; the model returns it
  beside the boolean.
\<close>

definition take_batch :: "cursor \<Rightarrow> document list \<Rightarrow> int option \<Rightarrow> document list \<times> cursor" where
  "take_batch c result tot =
     (case tot of
        None \<Rightarrow> (result @ c_data c, c\<lparr>c_data := []\<rparr>)
      | Some t \<Rightarrow>
          (let k = nat (min (int (length (c_data c))) t)
           in (result @ take k (c_data c), c\<lparr>c_data := drop k (c_data c)\<rparr>)))"

definition next_batch ::
  "constants \<Rightarrow> server \<Rightarrow> cursor \<Rightarrow> world \<Rightarrow> document list \<Rightarrow> int option
     \<Rightarrow> (error + bool \<times> document list) \<times> cursor \<times> world" where
  "next_batch K srv c w result tot =
     (case check_exhaust K c of
        (Some e, c0) \<Rightarrow> (Inl e, c0, w)
      | (None, c0) \<Rightarrow>
          (if c_empty c0 then (Inr (False, result), c0, w)
           else if c_data c0 \<noteq> [] then
             (case take_batch c0 result tot of (res, c1) \<Rightarrow> (Inr (True, res), c1, w))
           else
             (case refresh K srv c0 w of
                (Inl e, c1, w1) \<Rightarrow> (Inl e, c1, w1)
              | (Inr n, c1, w1) \<Rightarrow>
                  (if n \<noteq> 0 then
                     (case take_batch c1 result tot of (res, c2) \<Rightarrow> (Inr (True, res), c2, w1))
                   else (Inr (False, result), c1, w1)))))"

text \<open>
  \<^verbatim>\<open>Cursor.to_list\<close>. The \<^verbatim>\<open>while self.alive\<close> loop runs as long as the server sends
  batches, so it is given fuel: one unit for each test of the loop condition, and
  \<open>None\<close> when the fuel runs out before the loop ends.
\<close>

fun to_list_loop ::
  "constants \<Rightarrow> server \<Rightarrow> nat \<Rightarrow> int option \<Rightarrow> document list \<Rightarrow> int option \<Rightarrow> cursor \<Rightarrow> world
     \<Rightarrow> (error + document list) option \<times> cursor \<times> world" where
  "to_list_loop K srv 0 len res remaining c w = (None, c, w)"
| "to_list_loop K srv (Suc n) len res remaining c w =
     (if alive c then
        (case next_batch K srv c w res remaining of
           (Inl e, c1, w1) \<Rightarrow> (Some (Inl e), c1, w1)
         | (Inr (got, res1), c1, w1) \<Rightarrow>
             (if \<not> got then (Some (Inr res1), c1, w1)
              else
                (case len of
                   Some l \<Rightarrow>
                     (if l - int (length res1) = 0 then (Some (Inr res1), c1, w1)
                      else to_list_loop K srv n len res1 (Some (l - int (length res1))) c1 w1)
                 | None \<Rightarrow> to_list_loop K srv n len res1 remaining c1 w1)))
      else (Some (Inr res), c, w))"

definition to_list ::
  "constants \<Rightarrow> server \<Rightarrow> nat \<Rightarrow> cursor \<Rightarrow> world \<Rightarrow> int option
     \<Rightarrow> (error + document list) option \<times> cursor \<times> world" where
  "to_list K srv fuel c w len =
     (case len of
        Some l \<Rightarrow> (if l < 1 then (Some (Inl ValueError), c, w)
                   else to_list_loop K srv fuel len [] len c w)
      | None \<Rightarrow> to_list_loop K srv fuel len [] len c w)"

definition rewind :: "cursor \<Rightarrow> world \<Rightarrow> error option \<times> cursor \<times> world" where
  "rewind c w =
     (case close c w of
        (Some e, c1, w1) \<Rightarrow> (Some e, c1, w1)
      | (None, c1, w1) \<Rightarrow>
          (None, c1\<lparr>c_data := [], c_id := None, c_address := None, c_retrieved := 0,
                     c_killed := False\<rparr>, w1))"

subsection \<open>Clones, explain and indexing\<close>

text \<open>
  \<^verbatim>\<open>Cursor.clone\<close>: a new cursor on the same collection (with the session only when the
  caller supplied it), onto which the attributes named in \<^verbatim>\<open>values_to_clone\<close> are copied.
\<close>

definition clone :: "constants \<Rightarrow> cursor \<Rightarrow> error + cursor" where
  "clone K c =
     (case init K (c_collection c)
             ((default_args K)\<lparr>a_session := (if c_explicit_session c then c_session c else None)\<rparr>) of
        Inl e \<Rightarrow> Inl e
      | Inr base \<Rightarrow>
          Inr (base\<lparr>c_spec := c_spec c, c_projection := c_projection c, c_skip := c_skip c,
                     c_limit := c_limit c, c_max_time_ms := c_max_time_ms c,
                     c_max_await_time_ms := c_max_await_time_ms c, c_comment := c_comment c,
                     c_max := c_max c, c_min := c_min c, c_ordering := c_ordering c,
                     c_explain := c_explain c, c_hint := c_hint c,
                     c_batch_size := c_batch_size c, c_max_scan := c_max_scan c,
                     c_query_flags := c_query_flags c, c_collation := c_collation c,
                     c_empty := c_empty c, c_show_record_id := c_show_record_id c,
                     c_return_key := c_return_key c, c_allow_disk_use := c_allow_disk_use c,
                     c_snapshot := c_snapshot c, c_exhaust := c_exhaust c,
                     c_has_filter := c_has_filter c, c_cursor_type := c_cursor_type c\<rparr>))"

text \<open>
  \<^verbatim>\<open>Cursor.__del__\<close>, which runs when the last reference to a clone is dropped: what it
  raises is discarded, what it does to the client stays.
\<close>

definition finalize :: "cursor \<Rightarrow> world \<Rightarrow> world" where
  "finalize c w = snd (snd (die_no_lock c w))"

definition explain ::
  "constants \<Rightarrow> server \<Rightarrow> cursor \<Rightarrow> world \<Rightarrow> (error + document) \<times> cursor \<times> world" where
  "explain K srv c w =
     (case clone K c of
        Inl e \<Rightarrow> (Inl e, c, w)
      | Inr cl \<Rightarrow>
          (let cl1 = cl\<lparr>c_explain := True\<rparr>;
               cl2 = (if c_limit cl1 \<noteq> 0 then cl1\<lparr>c_limit := - \<bar>c_limit cl1\<bar>\<rparr> else cl1)
           in (case cursor_next K srv cl2 w of
                 (r, cl3, w3) \<Rightarrow> (r, c, finalize cl3 w3))))"

text \<open>
  \<^verbatim>\<open>Cursor.__getitem__\<close> for \<^verbatim>\<open>cursor[start:stop:step]\<close> and \<^verbatim>\<open>cursor[i]\<close>; a slice gives
  back the cursor itself, an integer the document.
\<close>

datatype index = Slice "int option" "int option" "int option" | Index int

datatype item = ItemCursor | ItemDoc document

definition getitem ::
  "constants \<Rightarrow> server \<Rightarrow> cursor \<Rightarrow> world \<Rightarrow> index \<Rightarrow> (error + item) \<times> cursor \<times> world" where
  "getitem K srv c w idx =
     (case check_okay_to_chain c of
        Some e \<Rightarrow> (Inl e, c, w)
      | None \<Rightarrow>
          (let c0 = c\<lparr>c_empty := False\<rparr> in
           (case idx of
              Slice start stop step \<Rightarrow>
                (if step \<noteq> None then (Inl IndexError, c0, w)
                 else
                   (case (case start of
                            Some s \<Rightarrow> (if s < 0 then Inl IndexError else Inr s)
                          | None \<Rightarrow> Inr 0) of
                      Inl e \<Rightarrow> (Inl e, c0, w)
                    | Inr sk \<Rightarrow>
                        (case stop of
                           Some st \<Rightarrow>
                             (if st - sk < 0 then (Inl IndexError, c0, w)
                              else
                                (let c1 = (if st - sk = 0 then c0\<lparr>c_empty := True\<rparr> else c0)
                                 in (Inr ItemCursor, c1\<lparr>c_skip := sk, c_limit := st - sk\<rparr>, w)))
                         | None \<Rightarrow> (Inr ItemCursor, c0\<lparr>c_skip := sk, c_limit := 0\<rparr>, w))))
            | Index i \<Rightarrow>
                (if i < 0 then (Inl IndexError, c0, w)
                 else
                   (case clone K c0 of
                      Inl e \<Rightarrow> (Inl e, c0, w)
                    | Inr cl \<Rightarrow>
                        (case skip cl (BInt (i + c_skip c0)) of
                           (Some e, cl1) \<Rightarrow> (Inl e, c0, finalize cl1 w)
                         | (None, cl1) \<Rightarrow>
                             (case limit cl1 (BInt (- 1)) of
                                (Some e, cl2) \<Rightarrow> (Inl e, c0, finalize cl2 w)
                              | (None, cl2) \<Rightarrow>
                                  (case cursor_next K srv
                                          (cl2\<lparr>c_query_flags :=
                                                  c_query_flags cl2 AND NOT (TAILABLE_AWAIT K)\<rparr>) w of
                                     (Inr d, cl3, w3) \<Rightarrow> (Inr (ItemDoc d), c0, finalize cl3 w3)
                                   | (Inl e, cl3, w3) \<Rightarrow>
                                       (if e = StopIteration
                                        then (Inl IndexError, c0, finalize cl3 w3)
                                        else (Inl e, c0, finalize cl3 w3))))))))))"

subsection \<open>Reading the log and iterating\<close>

text \<open>
  The operations sent, the kill-cursors requests and the connections returned to the
  pool, read off a log.
\<close>

fun sent :: "event list \<Rightarrow> operation list" where
  "sent [] = []"
| "sent (Sent op a # es) = op # sent es"
| "sent (_ # es) = sent es"

fun kills :: "event list \<Rightarrow> nat" where
  "kills [] = 0"
| "kills (KillCursors l i a # es) = Suc (kills es)"
| "kills (_ # es) = kills es"

fun unpins :: "event list \<Rightarrow> nat" where
  "unpins [] = 0"
| "unpins (Unpin n # es) = Suc (unpins es)"
| "unpins (_ # es) = unpins es"

text \<open>When \<^verbatim>\<open>_prepare_to_die\<close> asks for a kill-cursors request.\<close>

definition kill_needed :: "cursor \<Rightarrow> bool" where
  "kill_needed c = (c_id c \<noteq> None \<and> c_id c \<noteq> Some 0 \<and> \<not> c_killed c)"

text \<open>
  Every response sets the address before the cursor id, so a cursor that has an id has
  an address.
\<close>

definition address_known :: "cursor \<Rightarrow> bool" where
  "address_known c = (c_id c \<noteq> None \<longrightarrow> c_address c \<noteq> None)"

text \<open>
  Two worlds between which no operation was sent, and the world right after an operation
  is sent.
\<close>

definition quiet :: "world \<Rightarrow> world \<Rightarrow> bool" where
  "quiet w w' = (sent (w_log w') = sent (w_log w) \<and> exchanges w' = exchanges w)"

definition sending :: "world \<Rightarrow> operation \<Rightarrow> address option \<Rightarrow> world" where
  "sending w op addr = w\<lparr>exchanges := Suc (exchanges w), w_log := w_log w @ [Sent op addr]\<rparr>"

text \<open>\<open>n\<close> calls of \<^verbatim>\<open>next\<close> in a row, with what each returned or raised.\<close>

fun drain ::
  "constants \<Rightarrow> server \<Rightarrow> nat \<Rightarrow> cursor \<Rightarrow> world \<Rightarrow> (error + document) list \<times> cursor \<times> world" where
  "drain K srv 0 c w = ([], c, w)"
| "drain K srv (Suc n) c w =
     (case cursor_next K srv c w of
        (r, c1, w1) \<Rightarrow> (case drain K srv n c1 w1 of (rs, c2, w2) \<Rightarrow> (r # rs, c2, w2)))"

subsection \<open>Limits: what is asked for and what is brought\<close>









subsection \<open>Sample values\<close>

text \<open>
  A collection on a plain server, the cursor \<^verbatim>\<open>find(**args)\<close> builds on it, the world
  before any call, and a server that answers the query with two documents under cursor
  id 7 and every getMore with a last document under cursor id 0.
\<close>

definition sample_collection :: collection where
  "sample_collection =
     \<lparr> coll_database_name = ''db'', coll_name = ''things'', client_is_mongos = False,
       client_encrypter = False, client_implicit_session = Some 1,
       coll_read_preference = 0 \<rparr>"

definition find_cursor :: "find_args \<Rightarrow> cursor" where
  "find_cursor a = init_attrs wire_constants sample_collection a"

definition world0 :: world where
  "world0 = \<lparr> exchanges = 0, w_log = [] \<rparr>"

definition sample_doc :: "int \<Rightarrow> document" where
  "sample_doc n = [(''_id'', BInt n)]"

definition sample_reply :: "int \<Rightarrow> document list \<Rightarrow> outcome" where
  "sample_reply i ds = Reply \<lparr> r_address = (''localhost'', 27017), r_pinned = None,
                               r_payload = CommandCursor i ds None \<rparr>"

definition two_batches :: server where
  "two_batches n op =
     (if n = 0 then sample_reply 7 [sample_doc 1, sample_doc 2] else sample_reply 0 [sample_doc 3])"

text \<open>The cursor after its first document has been read from \<open>two_batches\<close>.\<close>

definition used_cursor :: cursor where
  "used_cursor =
     fst (snd (cursor_next wire_constants two_batches (find_cursor (default_args wire_constants)) world0))"

text \<open>The cursor of \<^verbatim>\<open>find({"query": 1, "x": 2})\<close> and a cursor of type TAILABLE.\<close>

definition query_first :: cursor where
  "query_first =
     find_cursor ((default_args wire_constants)
                    \<lparr>a_filter := Some [(''query'', BInt 1), (''x'', BInt 2)]\<rparr>)"

definition tailable_cursor :: cursor where
  "tailable_cursor =
     find_cursor ((default_args wire_constants)\<lparr>a_cursor_type := TAILABLE wire_constants\<rparr>)"

text \<open>
  A server on which every exchange fails with CursorNotFound (code 43), the cursor of
  \<^verbatim>\<open>find(limit=5)\<close> after its first batch of two documents has been read, with the world
  at that moment, and the cursor of \<^verbatim>\<open>find().min([("a", 1)])\<close>.
\<close>

definition always_gone :: server where
  "always_gone n op = RaiseOperationFailure (Some 43) False"

definition limited_cursor :: cursor where
  "limited_cursor =
     fst (snd (drain wire_constants two_batches (Suc (Suc 0))
                 (find_cursor ((default_args wire_constants)\<lparr>a_limit := 5\<rparr>)) world0))"

definition limited_world :: world where
  "limited_world =
     snd (snd (drain wire_constants two_batches (Suc (Suc 0))
                 (find_cursor ((default_args wire_constants)\<lparr>a_limit := 5\<rparr>)) world0))"

definition min_cursor :: cursor where
  "min_cursor =
     snd (min_bound (find_cursor (default_args wire_constants))
            (BList [BList [BStr ''a'', BInt 1]]) (Inr [(''a'', BInt 1)]))"

text \<open>The same cursor, closed before it is iterated.\<close>

definition closed_min_cursor :: cursor where
  "closed_min_cursor = fst (snd (close min_cursor world0))"



definition limit_two :: cursor where
  "limit_two = find_cursor ((default_args wire_constants)\<lparr>a_limit := 2\<rparr>)"

section \<open>Properties\<close>

lemmas sample_defs =
  find_cursor_def init_attrs_def init_flags_def default_args_def wire_constants_def
  sample_collection_def world0_def sample_doc_def sample_reply_def two_batches_def

lemmas run_defs =
  cursor_next_def check_exhaust_def refresh_def ensure_session_def make_query_def
  make_getmore_def send_and_count_def query_spec_def operators_def
  get_read_preference_def getmore_limit_def send_message_def run_operation_def on_reply_def
  pin_def store_batch_def is_find_def close_at_limit_def close_def die_lock_def die_def
  prepare_to_die_def cleanup_cursor_def popleft_def truthy_doc_def truthy_hint_def Let_def

lemma init_find_cursor:
  "init wire_constants sample_collection (default_args wire_constants)
     = Inr (find_cursor (default_args wire_constants))"
  by (simp add: init_def supports_exhaust_def sample_defs)

lemma used_cursor_state:
  "c_retrieved used_cursor = 2" "c_id used_cursor = Some 7" "c_data used_cursor = [sample_doc 2]"
  by (simp_all add: used_cursor_def sample_defs run_defs)

subsection \<open>What the cleanup and an exchange do to the world\<close>

lemma sent_append [simp]: "sent (xs @ ys) = sent xs @ sent ys"
  by (induction xs rule: sent.induct) simp_all

lemma kills_append [simp]: "kills (xs @ ys) = kills xs + kills ys"
  by (induction xs rule: kills.induct) simp_all

lemma unpins_append [simp]: "unpins (xs @ ys) = unpins xs + unpins ys"
  by (induction xs rule: unpins.induct) simp_all

lemma cm_close_world:
  "sent (w_log (snd (cm_close m w))) = sent (w_log w)" "exchanges (snd (cm_close m w)) = exchanges w"
  "kills (w_log (snd (cm_close m w))) = kills (w_log w)"
  "unpins (w_log (snd (cm_close m w))) = unpins (w_log w) + (if conn m = None then 0 else 1)"
  by (auto simp: cm_close_def split: option.splits)

lemma cleanup_world:
  "sent (w_log (cleanup_cursor l i a m s e w)) = sent (w_log w)"
  "exchanges (cleanup_cursor l i a m s e w) = exchanges w"
  "kills (w_log (cleanup_cursor l i a m s e w)) = kills (w_log w) + (if i = 0 then 0 else 1)"
  "unpins (w_log (cleanup_cursor l i a m s e w)) = unpins (w_log w) + (case m of None \<Rightarrow> 0 | Some m' \<Rightarrow> if conn m' = None then 0 else 1)"
  by (auto simp: cleanup_cursor_def Let_def cm_close_world split: option.splits)

lemma die_assert:
  "kill_needed c \<Longrightarrow> c_address c = None \<Longrightarrow> die l c w = (Some AssertionError, c\<lparr>c_killed := True\<rparr>, w)"
  by (auto simp: die_def prepare_to_die_def kill_needed_def Let_def split: option.splits)

lemma die_kill:
  "kill_needed c \<Longrightarrow> c_address c = Some a \<Longrightarrow>
   die l c w = (None, c\<lparr>c_killed := True, c_session := (if c_explicit_session c then c_session c else None), c_sock_mgr := None\<rparr>,
      cleanup_cursor l (the (c_id c)) (Some (a, c_dbname c @ ''.'' @ c_collname c)) (c_sock_mgr c) (c_session c) (c_explicit_session c) w)"
  by (auto simp: die_def prepare_to_die_def kill_needed_def Let_def split: option.splits)

lemma die_skip:
  "\<not> kill_needed c \<Longrightarrow>
   die l c w = (None, c\<lparr>c_killed := True, c_session := (if c_explicit_session c then c_session c else None), c_sock_mgr := None\<rparr>,
      cleanup_cursor l 0 None (c_sock_mgr c) (c_session c) (c_explicit_session c) w)"
  by (auto simp: die_def prepare_to_die_def kill_needed_def Let_def split: option.splits)

lemma die_cases:
  obtains (assert) "kill_needed c" "c_address c = None" "die l c w = (Some AssertionError, c\<lparr>c_killed := True\<rparr>, w)"
  | (kill) a where "kill_needed c" "c_address c = Some a" "die l c w = (None, c\<lparr>c_killed := True, c_session := (if c_explicit_session c then c_session c else None), c_sock_mgr := None\<rparr>,
      cleanup_cursor l (the (c_id c)) (Some (a, c_dbname c @ ''.'' @ c_collname c)) (c_sock_mgr c) (c_session c) (c_explicit_session c) w)"
  | (skip) "\<not> kill_needed c" "die l c w = (None, c\<lparr>c_killed := True, c_session := (if c_explicit_session c then c_session c else None), c_sock_mgr := None\<rparr>,
      cleanup_cursor l 0 None (c_sock_mgr c) (c_session c) (c_explicit_session c) w)"
  using die_assert die_kill die_skip by (cases "kill_needed c"; cases "c_address c") blast+

lemma die_world:
  "sent (w_log (snd (snd (die l c w)))) = sent (w_log w)"
  "exchanges (snd (snd (die l c w))) = exchanges w"
  by (rule die_cases[of c l w]; simp add: cleanup_world)+

lemma die_cursor:
  "c_data (fst (snd (die l c w))) = c_data c"
  "c_killed (fst (snd (die l c w)))"
  "c_id (fst (snd (die l c w))) = c_id c"
  "c_limit (fst (snd (die l c w))) = c_limit c"
  "c_retrieved (fst (snd (die l c w))) = c_retrieved c"
  "c_empty (fst (snd (die l c w))) = c_empty c"
  "c_exhaust_checked (fst (snd (die l c w))) = c_exhaust_checked c"
  "c_query_flags (fst (snd (die l c w))) = c_query_flags c"
  by (rule die_cases[of c l w]; simp)+

lemma quiet_refl [simp]: "quiet w w"
  by (simp add: quiet_def)

lemma quiet_trans: "quiet w w1 \<Longrightarrow> quiet w1 w2 \<Longrightarrow> quiet w w2"
  by (simp add: quiet_def)

lemma die_quiet: "die l c w = (e, c', w') \<Longrightarrow> quiet w w'"
  using die_world[of l c w] by (simp add: quiet_def)

lemma close_quiet: "close c w = (e, c', w') \<Longrightarrow> quiet w w'"
  by (simp add: close_def die_lock_def die_quiet)

lemma die_no_lock_quiet: "die_no_lock c w = (e, c', w') \<Longrightarrow> quiet w w'"
  by (simp add: die_no_lock_def die_quiet)

lemma on_operation_failure_quiet:
  assumes "on_operation_failure K c w code timeout = (e, c', w')"
  shows "quiet w w'"
proof -
  let ?c1 = "if code_in_closed K code \<or> c_exhaust c then c\<lparr>c_killed := True\<rparr> else c"
  obtain e2 c2 w2 where d: "(if timeout then die_no_lock ?c1 w else close ?c1 w) = (e2, c2, w2)"
    by (metis prod_cases3)
  have q: "quiet w w2"
  proof (cases timeout)
    case True with d show ?thesis by (simp add: die_no_lock_quiet)
  next
    case False with d show ?thesis by (simp add: close_quiet)
  qed
  have "w' = w2"
    using assms unfolding on_operation_failure_def Let_def d
    by (cases e2) (simp_all split: if_splits)
  with q show ?thesis by simp
qed

lemma close_then_raise_quiet:
  assumes "close_then_raise x c w = (e, c', w')"
  shows "quiet w w'"
proof -
  obtain e2 c2 w2 where d: "close c w = (e2, c2, w2)" by (metis prod_cases3)
  have "w' = w2" using assms unfolding close_then_raise_def d by (cases e2) simp_all
  with close_quiet[OF d] show ?thesis by simp
qed

lemma close_at_limit_quiet: "close_at_limit c w = (e, c', w') \<Longrightarrow> quiet w w'"
  by (auto simp: close_at_limit_def close_quiet split: if_splits)

lemma on_reply_quiet:
  assumes "on_reply c w op r = (e, c', w')"
  shows "quiet w w'"
proof -
  obtain e3 c3 where s: "store_batch (pin (c\<lparr>c_address := Some (r_address r)\<rparr>) r) op (r_payload r) = (e3, c3)"
    by force
  show ?thesis
  proof (cases e3)
    case (Some x)
    with assms s show ?thesis by (simp add: on_reply_def)
  next
    case None
    show ?thesis
    proof (cases "c_id c3 = Some 0")
      case False
      with assms s None have "close_at_limit c3 w = (e, c', w')" by (simp add: on_reply_def)
      then show ?thesis by (rule close_at_limit_quiet)
    next
      case True
      obtain e4 c4 w4 where d: "close c3 w = (e4, c4, w4)" by (metis prod_cases3)
      note q4 = close_quiet[OF d]
      show ?thesis
      proof (cases e4)
        case (Some y)
        with assms s None True d have "w' = w4" by (simp add: on_reply_def)
        with q4 show ?thesis by simp
      next
        case n4: None
        with assms s None True d have "close_at_limit c4 w4 = (e, c', w')" by (simp add: on_reply_def)
        from quiet_trans[OF q4 close_at_limit_quiet[OF this]] show ?thesis .
      qed
    qed
  qed
qed

lemma send_message_unfold:
  "\<not> (client_encrypter (c_collection c) \<and> c_exhaust c) \<Longrightarrow>
   send_message K srv c w op =
     (case srv (exchanges w) op of
        Reply r \<Rightarrow> on_reply c (sending w op (c_address c)) op r
      | RaiseOperationFailure code timeout \<Rightarrow>
          on_operation_failure K c (sending w op (c_address c)) code timeout
      | RaiseConnectionFailure \<Rightarrow>
          close_then_raise ConnectionFailure (c\<lparr>c_killed := True\<rparr>) (sending w op (c_address c))
      | RaiseBaseException \<Rightarrow> close_then_raise BaseException c (sending w op (c_address c)))"
  by (auto simp: send_message_def run_operation_def sending_def split: outcome.splits)

lemma send_message_world:
  assumes "\<not> (client_encrypter (c_collection c) \<and> c_exhaust c)"
    and "send_message K srv c w op = (e, c', w')"
  shows "sent (w_log w') = sent (w_log w) @ [op]" and "exchanges w' = Suc (exchanges w)"
proof -
  have "quiet (sending w op (c_address c)) w'"
    using assms(2) unfolding send_message_unfold[OF assms(1)]
    by (cases "srv (exchanges w) op")
       (auto dest: on_operation_failure_quiet close_then_raise_quiet on_reply_quiet)
  then show "sent (w_log w') = sent (w_log w) @ [op]" and "exchanges w' = Suc (exchanges w)"
    by (simp_all add: quiet_def sending_def)
qed

lemma send_message_refused:
  "client_encrypter (c_collection c) \<and> c_exhaust c \<Longrightarrow> send_message K srv c w op = (Some InvalidOperation, c, w)"
  by (simp add: send_message_def)

lemma ensure_session_world:
  "sent (w_log (snd (ensure_session c w))) = sent (w_log w)"
  "exchanges (snd (ensure_session c w)) = exchanges w"
  by (simp_all add: ensure_session_def)

lemma ensure_session_cursor:
  "fst (ensure_session c w) = c\<lparr>c_session := c_session (fst (ensure_session c w))\<rparr>"
  by (simp add: ensure_session_def)

lemma get_read_preference_cursor:
  "snd (get_read_preference c) = c\<lparr>c_read_preference := c_read_preference (snd (get_read_preference c))\<rparr>"
  by (simp add: get_read_preference_def split: option.splits)

lemma make_getmore_op:
  "\<not> is_find (fst (make_getmore c i))"
  "g_cursor_id (fst (make_getmore c i)) = i"
  "g_ntoreturn (fst (make_getmore c i)) = getmore_limit c"
  by (simp_all add: make_getmore_def Let_def is_find_def split: prod.splits)

lemma make_getmore_cursor:
  "snd (make_getmore c i) = snd (get_read_preference c)"
  by (simp add: make_getmore_def Let_def split: prod.splits)

lemma send_and_count_world:
  assumes "\<not> (client_encrypter (c_collection (snd oc)) \<and> c_exhaust (snd oc))"
  shows "sent (w_log (snd (snd (send_and_count K srv oc w)))) = sent (w_log w) @ [fst oc]"
    and "exchanges (snd (snd (send_and_count K srv oc w))) = Suc (exchanges w)"
proof -
  obtain e c4 w4 where s: "send_message K srv (snd oc) w (fst oc) = (e, c4, w4)"
    by (metis prod_cases3)
  from send_message_world[OF assms s] s
  show "sent (w_log (snd (snd (send_and_count K srv oc w)))) = sent (w_log w) @ [fst oc]"
    and "exchanges (snd (snd (send_and_count K srv oc w))) = Suc (exchanges w)"
    by (cases e; simp add: send_and_count_def)+
qed

lemma refresh_getmore:
  assumes "c_data c = []" "\<not> c_killed c" "c_id c = Some i" "i \<noteq> 0"
  shows "refresh K srv c w =
     send_and_count K srv (make_getmore (fst (ensure_session c w)) i) (snd (ensure_session c w))"
  using assms by (simp add: refresh_def ensure_session_def)

lemma next_pop:
  "\<not> c_empty c \<Longrightarrow> c_exhaust_checked c \<Longrightarrow> c_data c = d # ds \<Longrightarrow>
   cursor_next K srv c w = (Inr d, c\<lparr>c_data := ds\<rparr>, w)"
  by (simp add: cursor_next_def check_exhaust_def popleft_def)

lemma next_killed:
  "\<not> c_empty c \<Longrightarrow> c_exhaust_checked c \<Longrightarrow> c_data c = [] \<Longrightarrow> c_killed c \<Longrightarrow>
   cursor_next K srv c w = (Inl StopIteration, c, w)"
  by (simp add: cursor_next_def check_exhaust_def refresh_def)

lemma next_empty:
  "c_empty c \<Longrightarrow> c_exhaust_checked c \<Longrightarrow> cursor_next K srv c w = (Inl StopIteration, c, w)"
  by (simp add: cursor_next_def check_exhaust_def)

lemma drain_buffer:
  "\<not> c_empty c \<Longrightarrow> c_exhaust_checked c \<Longrightarrow> k \<le> length (c_data c) \<Longrightarrow>
   drain K srv k c w = (map Inr (take k (c_data c)), c\<lparr>c_data := drop k (c_data c)\<rparr>, w)"
proof (induction k arbitrary: c)
  case 0
  then show ?case by simp
next
  case (Suc k)
  then obtain d ds where d: "c_data c = d # ds" by (cases "c_data c") auto
  have n: "cursor_next K srv c w = (Inr d, c\<lparr>c_data := ds\<rparr>, w)"
    using Suc.prems d by (simp add: next_pop)
  have "drain K srv k (c\<lparr>c_data := ds\<rparr>) w
          = (map Inr (take k ds), c\<lparr>c_data := ds\<rparr>\<lparr>c_data := drop k ds\<rparr>, w)"
    using Suc.IH[of "c\<lparr>c_data := ds\<rparr>"] Suc.prems d by simp
  then show ?case by (simp add: n d)
qed

lemma drain_empty:
  "c_empty c \<Longrightarrow> c_exhaust_checked c \<Longrightarrow> drain K srv n c w = (replicate n (Inl StopIteration), c, w)"
  by (induction n) (simp_all add: next_empty)

lemma close_cursor:
  "c_data (fst (snd (close c w))) = c_data c"
  "c_killed (fst (snd (close c w)))"
  "c_empty (fst (snd (close c w))) = c_empty c"
  "c_exhaust_checked (fst (snd (close c w))) = c_exhaust_checked c"
  by (simp_all add: close_def die_lock_def die_cursor)

lemma next_batch_empty:
  "c_empty c \<Longrightarrow> c_exhaust_checked c \<Longrightarrow> next_batch K srv c w res tot = (Inr (False, res), c, w)"
  by (simp add: next_batch_def check_exhaust_def)

lemma to_list_empty:
  "c_empty c \<Longrightarrow> c_exhaust_checked c \<Longrightarrow> (case len of Some l \<Rightarrow> 1 \<le> l | None \<Rightarrow> True) \<Longrightarrow>
   to_list K srv (Suc n) c w len = (Some (Inr []), c, w)"
  by (auto simp: to_list_def next_batch_empty split: option.splits)

lemma cm_close_twice:
  "cm_close (fst (cm_close m w)) (snd (cm_close m w)) = cm_close m w"
  "unpins (w_log (snd (cm_close m w))) \<le> Suc (unpins (w_log w))"
  by (auto simp: cm_close_def split: option.splits)

lemma cleanup_noop:
  "s = None \<or> e \<Longrightarrow> cleanup_cursor l 0 a None s e w = w"
  by (auto simp: cleanup_cursor_def split: option.splits)

lemma die_done:
  assumes "c_killed c" "c_sock_mgr c = None" "c_explicit_session c \<or> c_session c = None"
  shows "die l c w = (None, c, w)"
proof -
  have k: "\<not> kill_needed c" using assms(1) by (simp add: kill_needed_def)
  have w: "cleanup_cursor l 0 None (c_sock_mgr c) (c_session c) (c_explicit_session c) w = w"
    using assms by (auto simp: cleanup_noop)
  have "c\<lparr>c_killed := True, c_session := (if c_explicit_session c then c_session c else None),
           c_sock_mgr := None\<rparr> = c"
    using assms by (cases c) auto
  with die_skip[OF k, of l w] w show ?thesis by simp
qed

lemma die_post:
  assumes "die l c w = (None, c1, w1)"
  shows "c_killed c1 \<and> c_sock_mgr c1 = None \<and> (c_explicit_session c1 \<or> c_session c1 = None)"
  by (rule die_cases[of c l w]) (use assms in auto)

lemma die_counts:
  "kills (w_log (snd (snd (die l c w)))) \<le> Suc (kills (w_log w))"
  "unpins (w_log (snd (snd (die l c w)))) \<le> Suc (unpins (w_log w))"
  by (rule die_cases[of c l w]; simp add: cleanup_world split: option.splits)+

lemma die_no_error:
  "c_id c = None \<or> c_id c = Some 0 \<or> c_killed c \<or> c_address c \<noteq> None \<Longrightarrow> fst (die l c w) = None"
  by (rule die_cases[of c l w]) (auto simp: kill_needed_def)

lemma on_operation_failure_swallowed:
  assumes "code_in_closed K code" "c_query_flags c AND opt_tailable_cursor K \<noteq> 0"
  shows "on_operation_failure K c w code timeout =
     (None, c\<lparr>c_killed := True, c_session := (if c_explicit_session c then c_session c else None),
               c_sock_mgr := None\<rparr>,
      cleanup_cursor (\<not> timeout) 0 None (c_sock_mgr c) (c_session c) (c_explicit_session c) w)"
proof -
  have k: "\<not> kill_needed (c\<lparr>c_killed := True\<rparr>)" by (simp add: kill_needed_def)
  show ?thesis
    using assms
    by (simp add: on_operation_failure_def Let_def die_no_lock_def close_def die_lock_def
          die_skip[OF k])
qed

text \<open>The sample cursors, field by field.\<close>

lemma used_cursor_fields:
  "c_address used_cursor = Some (''localhost'', 27017)" "\<not> c_killed used_cursor"
  "\<not> c_empty used_cursor" "c_exhaust_checked used_cursor" "c_sock_mgr used_cursor = None"
  "c_session used_cursor = Some 1" "\<not> c_explicit_session used_cursor"
  by (simp_all add: used_cursor_def sample_defs run_defs)

lemma close_used_cursor:
  "kills (w_log (snd (snd (close used_cursor world0)))) = 1"
proof -
  have k: "kill_needed used_cursor"
    by (simp add: kill_needed_def used_cursor_state used_cursor_fields)
  show ?thesis
    by (simp add: close_def die_lock_def die_kill[OF k used_cursor_fields(1)] cleanup_world
          used_cursor_state world0_def)
qed

lemma limited_cursor_state:
  "c_data limited_cursor = []" "\<not> c_killed limited_cursor" "c_id limited_cursor = Some 7"
  "c_limit limited_cursor = 5" "c_retrieved limited_cursor = 2" "c_batch_size limited_cursor = 0"
  "c_exhaust limited_cursor = False"
  by (simp_all add: limited_cursor_def sample_defs run_defs)

lemma limited_cursor_collection: "c_collection limited_cursor = sample_collection"
  by (simp add: limited_cursor_def sample_defs run_defs)

subsection \<open>The bookkeeping of a limit\<close>





















lemma refresh_unfold:
  assumes "c_data c = []" "\<not> c_killed c"
  shows "refresh K srv c w =
     (case c_id c of
        None \<Rightarrow>
          (if (truthy_doc (c_min c) \<or> truthy_doc (c_max c)) \<and> \<not> truthy_hint (c_hint c)
           then (Inl InvalidOperation, ensure_session c w)
           else send_and_count K srv (make_query (fst (ensure_session c w)))
                  (snd (ensure_session c w)))
      | Some i \<Rightarrow>
          (if i \<noteq> 0
           then send_and_count K srv (make_getmore (fst (ensure_session c w)) i)
                  (snd (ensure_session c w))
           else (Inr 0, ensure_session c w)))"
  using assms by (auto simp: refresh_def ensure_session_def split: option.splits)


















lemma limit_two_query:
  "two_batches 0 (fst (make_query limit_two)) = sample_reply 7 [sample_doc 1, sample_doc 2]"
  by (simp add: two_batches_def)


subsection \<open>A cursor with an id has an address\<close>

lemma init_address_known: "init K coll a = Inr c \<Longrightarrow> address_known c"
  by (auto simp: init_def init_attrs_def supports_exhaust_def address_known_def
        split: if_splits)

lemma die_address:
  "die l c w = (e, c', w') \<Longrightarrow> c_id c' = c_id c \<and> c_address c' = c_address c"
  by (rule die_cases[of c l w]) auto

lemma store_batch_address:
  "store_batch c op p = (e, c') \<Longrightarrow> c_address c' = c_address c"
  by (cases p) (auto simp: store_batch_def Let_def split: option.splits if_splits prod.splits)

lemma send_message_address_known:
  assumes "send_message K srv c w op = (e, c', w')" "address_known c"
  shows "address_known c'"
proof (cases "client_encrypter (c_collection c) \<and> c_exhaust c")
  case True
  with assms show ?thesis by (simp add: send_message_def)
next
  case False
  note u = assms(1)[unfolded send_message_unfold[OF False]]
  show ?thesis
  proof (cases "srv (exchanges w) op")
    case (Reply r)
    let ?c0 = "pin (c\<lparr>c_address := Some (r_address r)\<rparr>) r"
    obtain e3 c3 where s: "store_batch ?c0 op (r_payload r) = (e3, c3)" by force
    from store_batch_address[OF s] have a3: "c_address c3 \<noteq> None"
      by (simp add: pin_def split: option.splits prod.splits)
    have "c_address c' \<noteq> None"
      using u Reply s a3
      by (auto simp: on_reply_def close_at_limit_def close_def die_lock_def
            split: option.splits if_splits prod.splits dest!: die_address)
    then show ?thesis by (simp add: address_known_def)
  next
    case (RaiseOperationFailure code timeout)
    with u assms(2) show ?thesis
      by (auto simp: on_operation_failure_def Let_def close_def die_lock_def die_no_lock_def
            address_known_def split: option.splits if_splits prod.splits dest!: die_address)
  next
    case RaiseConnectionFailure
    with u assms(2) show ?thesis
      by (auto simp: close_then_raise_def close_def die_lock_def address_known_def
            split: option.splits prod.splits dest!: die_address)
  next
    case RaiseBaseException
    with u assms(2) show ?thesis
      by (auto simp: close_then_raise_def close_def die_lock_def address_known_def
            split: option.splits prod.splits dest!: die_address)
  qed
qed

lemma refresh_address_known:
  assumes "refresh K srv c w = (r, c', w')" "address_known c"
  shows "address_known c'"
proof -
  have a1: "address_known (fst (ensure_session c w))"
    using assms(2) by (simp add: ensure_session_def address_known_def)
  have q: "address_known (snd (make_query (fst (ensure_session c w))))"
    using a1 by (auto simp: make_query_def query_spec_def get_read_preference_def Let_def
                   address_known_def split: option.splits prod.splits)
  have g: "address_known (snd (make_getmore (fst (ensure_session c w)) i))" for i
    using a1 by (auto simp: make_getmore_def get_read_preference_def Let_def
                   address_known_def split: option.splits prod.splits)
  have sc: "address_known c'" if "send_and_count K srv oc w1 = (r, c', w')" "address_known (snd oc)"
    for oc w1
  proof -
    obtain e c4 w4 where s: "send_message K srv (snd oc) w1 (fst oc) = (e, c4, w4)"
      by (metis prod_cases3)
    with that(1) have "c' = c4" by (cases e) (simp_all add: send_and_count_def)
    with send_message_address_known[OF s that(2)] show ?thesis by simp
  qed
  show ?thesis
  proof (cases "c_data c \<noteq> [] \<or> c_killed c")
    case True
    with assms show ?thesis by (auto simp: refresh_def)
  next
    case False
    then have f: "c_data c = []" "\<not> c_killed c" by simp_all
    from assms(1)[unfolded refresh_unfold[OF f]] a1 q g show ?thesis
      by (auto split: option.splits if_splits dest: sc)
  qed
qed

lemma next_address_known:
  assumes "cursor_next K srv c w = (r, c', w')" "address_known c"
  shows "address_known c'"
proof -
  obtain e0 c0 where ce: "check_exhaust K c = (e0, c0)" by force
  then have a0: "address_known c0"
    using assms(2)
    by (auto simp: check_exhaust_def supports_exhaust_def address_known_def split: if_splits)
  have p: "address_known x \<Longrightarrow> address_known (snd (popleft x))" for x
    by (auto simp: popleft_def address_known_def split: list.splits)
  obtain r1 c1 w1 where rf: "refresh K srv c0 w = (r1, c1, w1)" by (metis prod_cases3)
  note a1 = refresh_address_known[OF rf a0]
  from assms(1) ce rf a0 a1 p[of c0] p[of c1] show ?thesis
    by (auto simp: cursor_next_def split: option.splits if_splits sum.splits prod.splits)
qed

subsection \<open>The query document\<close>

text \<open>
  Claim C5, as the code has it: \<^verbatim>\<open>_query_spec\<close> leaves the cursor as it is, and with no
  operator set it returns the filter unchanged unless \<^verbatim>\<open>query\<close> is the filter's first key,
  in which case it returns the filter wrapped under \<^verbatim>\<open>$query\<close>. A filter whose only key is
  \<^verbatim>\<open>query\<close> is one such case.
\<close>

theorem query_spec_without_operators:
  "snd (query_spec c) = c \<and>
   (operators c = [] \<longrightarrow>
      fst (query_spec c) =
        (if first_key (c_spec c) = Some ''query'' then [(''$query'', BDoc (c_spec c))]
         else c_spec c))"
  by (cases "c_spec c")
     (auto simp: query_spec_def Let_def first_key_def dict_contains_def split: list.splits)

theorem query_spec_without_operators_witness:
  "operators query_first = [] \<and>
   fst (query_spec query_first) = [(''$query'', BDoc [(''query'', BInt 1), (''x'', BInt 2)])]"
  using query_spec_without_operators [of query_first]
  by (simp add: query_first_def sample_defs operators_def first_key_def)

text \<open>
  Claim C5 as stated wraps the filter only when it is a single-key document; the filter
  \<^verbatim>\<open>{"query": 1, "x": 2}\<close> has two keys and no operator is set, and it is wrapped.
\<close>

theorem query_spec_first_key_counterexample:
  "operators query_first = [] \<and> length (c_spec query_first) = 2 \<and>
   fst (query_spec query_first) \<noteq> c_spec query_first"
  by (simp add: query_first_def sample_defs operators_def query_spec_def dict_contains_def
        first_key_def)

subsection \<open>Freeze after use\<close>

text \<open>
  Claim C1, as the code has it: on a cursor from which a document has been retrieved or
  whose server cursor id is set, every chainable setter fails and leaves the cursor as
  it was. It fails with InvalidOperation when its argument passes the setter's own
  checks; an argument of the wrong type fails with TypeError and a negative argument of
  \<^verbatim>\<open>batch_size\<close> or \<^verbatim>\<open>skip\<close> with ValueError, raised by the checks that come before
  the check of the cursor.
\<close>

theorem setter_after_use:
  "0 < c_retrieved c \<or> c_id c \<noteq> None \<Longrightarrow>
   call_setter K c s =
     (Some (case argument_error s of Some e \<Rightarrow> e | None \<Rightarrow> InvalidOperation), c)"
  by (cases s)
     (auto simp: check_okay_to_chain_def limit_def skip_def batch_size_def sort_c_def hint_def
        collation_def comment_def max_time_ms_def max_await_time_ms_def min_bound_def
        max_bound_def max_scan_def add_option_def remove_option_def allow_disk_use_def
        where_js_def int_argument_error_def natural_argument_error_def
        optional_int_argument_error_def
        split: option.splits)

theorem setter_after_use_witness:
  "0 < c_retrieved used_cursor \<and>
   call_setter wire_constants used_cursor (Limit (BInt 3)) = (Some InvalidOperation, used_cursor) \<and>
   call_setter wire_constants used_cursor (Limit (BStr ''3'')) = (Some TypeError, used_cursor)"
  using setter_after_use [of used_cursor wire_constants "Limit (BInt 3)"]
    setter_after_use [of used_cursor wire_constants "Limit (BStr ''3'')"]
  by (simp add: used_cursor_state int_argument_error_def as_int_def)

text \<open>
  Claim C1 as stated has every setter fail with InvalidOperation; \<^verbatim>\<open>batch_size(-1)\<close> on
  the used cursor fails with ValueError.
\<close>

theorem setter_after_use_counterexample:
  "0 < c_retrieved used_cursor \<and>
   fst (call_setter wire_constants used_cursor (BatchSize (BInt (- 1)))) = Some ValueError"
  by (simp add: used_cursor_state batch_size_def as_int_def)

subsection \<open>The await time of a tailable cursor\<close>

text \<open>
  Claim C9 at a cursor of type TAILABLE, which is not TAILABLE_AWAIT: its query flags
  share the tailable bit with the mask \<^verbatim>\<open>CursorType.TAILABLE_AWAIT\<close>, the test
  \<^verbatim>\<open>self._query_flags & CursorType.TAILABLE_AWAIT\<close> succeeds and \<^verbatim>\<open>max_await_time_ms\<close> stores
  the value, where the method's docstring and comment have it ignored.
\<close>

theorem max_await_time_ms_on_tailable:
  "init wire_constants sample_collection
     ((default_args wire_constants)\<lparr>a_cursor_type := TAILABLE wire_constants\<rparr>)
     = Inr tailable_cursor \<and>
   c_cursor_type tailable_cursor \<noteq> TAILABLE_AWAIT wire_constants \<and>
   c_max_await_time_ms tailable_cursor = None \<and>
   max_await_time_ms wire_constants tailable_cursor (BInt 100)
     = (None, tailable_cursor\<lparr>c_max_await_time_ms := Some 100\<rparr>)"
  by (simp add: tailable_cursor_def init_def supports_exhaust_def sample_defs
        max_await_time_ms_def check_okay_to_chain_def as_int_def)

subsection \<open>The tailable swallow\<close>

text \<open>
  Claim C3: when the exchange of a refill fails with an OperationFailure whose code is
  one of \<^verbatim>\<open>_CURSOR_CLOSED_ERRORS\<close> and the tailable flag is set in the query flags,
  \<^verbatim>\<open>next\<close> raises StopIteration, the cursor is marked killed and \<^verbatim>\<open>alive\<close> is false. The
  hypotheses say that the refill reaches an exchange: the buffer is empty, the cursor is
  neither killed, empty nor exhausted, the exhaust check is done, auto encryption does
  not refuse the exchange, and an unstarted cursor with min or max has a hint.
\<close>

theorem tailable_swallow:
  assumes closed: "code_in_closed K code"
    and tailable: "c_query_flags c AND opt_tailable_cursor K \<noteq> 0"
    and permitted: "\<not> (client_encrypter (c_collection c) \<and> c_exhaust c)"
    and fails: "\<And>op. srv (exchanges w) op = RaiseOperationFailure code timeout"
    and buffer: "c_data c = []" "\<not> c_killed c" "\<not> c_empty c" "c_exhaust_checked c"
    and live: "c_id c \<noteq> Some 0"
    and hinted: "c_id c = None \<Longrightarrow> \<not> ((truthy_doc (c_min c) \<or> truthy_doc (c_max c)) \<and> \<not> truthy_hint (c_hint c))"
  shows "fst (cursor_next K srv c w) = Inl StopIteration
    \<and> c_killed (fst (snd (cursor_next K srv c w)))
    \<and> \<not> alive (fst (snd (cursor_next K srv c w)))
    \<and> exchanges (snd (snd (cursor_next K srv c w))) = Suc (exchanges w)"
proof -
  let ?c1 = "fst (ensure_session c w)" and ?w1 = "snd (ensure_session c w)"
  have c1: "c_collection ?c1 = c_collection c" "c_exhaust ?c1 = c_exhaust c"
    "c_query_flags ?c1 = c_query_flags c" "c_data ?c1 = []" "c_id ?c1 = c_id c"
    "c_min ?c1 = c_min c" "c_max ?c1 = c_max c" "c_hint ?c1 = c_hint c"
    using buffer by (simp_all add: ensure_session_def)
  have w1: "exchanges ?w1 = exchanges w" by (simp add: ensure_session_world)
  have sm: "\<exists>c' w'. send_message K srv c2 ?w1 op = (None, c', w') \<and> c_killed c' \<and> c_data c' = []
        \<and> exchanges w' = Suc (exchanges w)"
    if "c_collection c2 = c_collection c" "c_exhaust c2 = c_exhaust c"
      "c_query_flags c2 = c_query_flags c" "c_data c2 = []" for c2 op
  proof -
    have p: "\<not> (client_encrypter (c_collection c2) \<and> c_exhaust c2)"
      using permitted that by simp
    have t: "c_query_flags c2 AND opt_tailable_cursor K \<noteq> 0" using tailable that by simp
    show ?thesis
      unfolding send_message_unfold[OF p] w1 fails
      using that(4)
      by (simp add: on_operation_failure_swallowed[OF closed t] cleanup_world sending_def
            ensure_session_world)
  qed
  have r: "\<exists>c' w'. refresh K srv c w = (Inr 0, c', w') \<and> c_killed c' \<and> c_data c' = []
        \<and> exchanges w' = Suc (exchanges w)"
  proof (cases "c_id c")
    case None
    let ?oc = "make_query ?c1"
    have oc: "c_collection (snd ?oc) = c_collection c" "c_exhaust (snd ?oc) = c_exhaust c"
      "c_query_flags (snd ?oc) = c_query_flags c" "c_data (snd ?oc) = []"
      by (simp_all add: make_query_def query_spec_def get_read_preference_def Let_def c1
            split: option.splits prod.splits)
    from sm[OF oc, of "fst ?oc"] obtain c' w' where
      s: "send_message K srv (snd ?oc) ?w1 (fst ?oc) = (None, c', w')" "c_killed c'" "c_data c' = []"
        "exchanges w' = Suc (exchanges w)" by blast
    have "refresh K srv c w = send_and_count K srv ?oc ?w1"
      using buffer None hinted[OF None] c1
      by (cases "ensure_session c w") (auto simp: refresh_def)
    with s show ?thesis by (simp add: send_and_count_def)
  next
    case (Some i)
    with live have i: "i \<noteq> 0" by simp
    let ?oc = "make_getmore ?c1 i"
    have oc: "c_collection (snd ?oc) = c_collection c" "c_exhaust (snd ?oc) = c_exhaust c"
      "c_query_flags (snd ?oc) = c_query_flags c" "c_data (snd ?oc) = []"
      by (simp_all add: make_getmore_def get_read_preference_def Let_def c1
            split: option.splits prod.splits)
    from sm[OF oc, of "fst ?oc"] obtain c' w' where
      s: "send_message K srv (snd ?oc) ?w1 (fst ?oc) = (None, c', w')" "c_killed c'" "c_data c' = []"
        "exchanges w' = Suc (exchanges w)" by blast
    have "refresh K srv c w = send_and_count K srv ?oc ?w1"
      using refresh_getmore[OF buffer(1,2) Some i] .
    with s show ?thesis by (simp add: send_and_count_def)
  qed
  then obtain c' w' where "refresh K srv c w = (Inr 0, c', w')" "c_killed c'" "c_data c' = []"
    "exchanges w' = Suc (exchanges w)" by blast
  then show ?thesis
    using buffer by (simp add: cursor_next_def check_exhaust_def alive_def)
qed

theorem tailable_swallow_witness:
  "code_in_closed wire_constants (Some 43) \<and>
   c_query_flags tailable_cursor AND opt_tailable_cursor wire_constants \<noteq> 0 \<and>
   fst (cursor_next wire_constants always_gone tailable_cursor world0) = Inl StopIteration \<and>
   c_killed (fst (snd (cursor_next wire_constants always_gone tailable_cursor world0))) \<and>
   \<not> alive (fst (snd (cursor_next wire_constants always_gone tailable_cursor world0)))"
  using tailable_swallow [where K=wire_constants and code="Some 43" and c=tailable_cursor and srv=always_gone and w=world0 and timeout=False]
  by (simp add: tailable_cursor_def always_gone_def code_in_closed_def sample_defs
        truthy_doc_def truthy_hint_def)

subsection \<open>Closing twice\<close>

text \<open>
  Claim C4: on a cursor whose address is known whenever a kill-cursors request is due
  (\<open>address_known\<close> gives that, and it holds from \<^verbatim>\<open>__init__\<close> on through every
  exchange), \<^verbatim>\<open>close\<close> raises nothing, a
  second \<^verbatim>\<open>close\<close> raises nothing and changes neither the cursor nor the world, so the two
  calls together issue at most one kill-cursors request and return at most one
  connection; and a second \<^verbatim>\<open>_ConnectionManager.close\<close> changes nothing, so the pinned
  connection is returned at most once.
\<close>

theorem close_idempotent:
  assumes "c_id c = None \<or> c_id c = Some 0 \<or> c_killed c \<or> c_address c \<noteq> None"
  shows "fst (close c w) = None
    \<and> close (fst (snd (close c w))) (snd (snd (close c w)))
        = (None, fst (snd (close c w)), snd (snd (close c w)))
    \<and> kills (w_log (snd (snd (close c w)))) \<le> Suc (kills (w_log w))
    \<and> unpins (w_log (snd (snd (close c w)))) \<le> Suc (unpins (w_log w))
    \<and> cm_close (fst (cm_close m w)) (snd (cm_close m w)) = cm_close m w
    \<and> unpins (w_log (snd (cm_close m w))) \<le> Suc (unpins (w_log w))"
proof -
  obtain c1 w1 where d: "die True c w = (None, c1, w1)"
    using die_no_error[OF assms, of True w] by (cases "die True c w") auto
  have "die True c1 w1 = (None, c1, w1)"
    using die_post[OF d] by (intro die_done) simp_all
  with d die_counts[of True c w] show ?thesis
    by (simp add: close_def die_lock_def cm_close_twice)
qed

theorem close_idempotent_witness:
  "c_address used_cursor \<noteq> None \<and>
   fst (close used_cursor world0) = None \<and>
   close (fst (snd (close used_cursor world0))) (snd (snd (close used_cursor world0)))
     = (None, fst (snd (close used_cursor world0)), snd (snd (close used_cursor world0))) \<and>
   kills (w_log (snd (snd (close used_cursor world0)))) = 1"
  using close_idempotent [where c=used_cursor and w=world0] close_used_cursor
  by (simp add: used_cursor_fields)

subsection \<open>The batch size of a getMore\<close>

text \<open>
  Claim C6, as the code has it: the refill of an active cursor sends one getMore for the
  cursor id, and the batch size it asks for is \<open>min (limit - retrieved) batch_size\<close> when
  a limit and a batch size are set, \<open>limit - retrieved\<close> when a limit is set and the
  batch size is 0, and the batch size when no limit is set.
\<close>

theorem getmore_batch_size:
  assumes "c_data c = []" "\<not> c_killed c" "c_id c = Some i" "i \<noteq> 0"
      "\<not> (client_encrypter (c_collection c) \<and> c_exhaust c)"
  shows "\<exists>g. sent (w_log (snd (snd (refresh K srv c w)))) = sent (w_log w) @ [g] \<and> \<not> is_find g
     \<and> g_cursor_id g = i
     \<and> g_ntoreturn g =
        (if c_limit c \<noteq> 0
         then (if c_batch_size c \<noteq> 0 then min (c_limit c - c_retrieved c) (c_batch_size c)
               else c_limit c - c_retrieved c)
         else c_batch_size c)"
proof -
  let ?c1 = "fst (ensure_session c w)" and ?w1 = "snd (ensure_session c w)"
  let ?oc = "make_getmore ?c1 i"
  have c1: "c_collection ?c1 = c_collection c" "c_exhaust ?c1 = c_exhaust c"
    "getmore_limit ?c1 = getmore_limit c"
    by (simp_all add: ensure_session_def getmore_limit_def)
  have oc: "c_collection (snd ?oc) = c_collection c" "c_exhaust (snd ?oc) = c_exhaust c"
    by (simp_all add: make_getmore_cursor get_read_preference_def c1 split: option.splits)
  have ok: "\<not> (client_encrypter (c_collection (snd ?oc)) \<and> c_exhaust (snd ?oc))"
    using assms(5) by (simp add: oc)
  have "sent (w_log (snd (snd (refresh K srv c w)))) = sent (w_log w) @ [fst ?oc]"
    using send_and_count_world(1)[OF ok, of K srv ?w1]
    by (simp add: refresh_getmore[OF assms(1-4)] ensure_session_world)
  moreover have "g_ntoreturn (fst ?oc) = getmore_limit c"
    by (simp add: make_getmore_op c1)
  ultimately show ?thesis
    by (intro exI[of _ "fst ?oc"]) (simp add: make_getmore_op getmore_limit_def)
qed

theorem getmore_batch_size_witness:
  "c_data limited_cursor = [] \<and> \<not> c_killed limited_cursor \<and> c_id limited_cursor = Some 7 \<and>
   (\<exists>g. sent (w_log (snd (snd (refresh wire_constants two_batches limited_cursor limited_world))))
          = sent (w_log limited_world) @ [g] \<and> g_ntoreturn g = 3)"
  using getmore_batch_size [where c=limited_cursor and i=7 and K=wire_constants and srv=two_batches and w=limited_world]
  by (auto simp: limited_cursor_state)

text \<open>
  Claim C6 as stated asks for \<open>min (limit - retrieved) batch_size\<close> whenever a limit is
  set. With limit 5, two documents retrieved and batch size 0 that is 0; the getMore
  asks for 3.
\<close>

theorem getmore_batch_size_counterexample:
  "c_limit limited_cursor \<noteq> 0 \<and>
   min (c_limit limited_cursor - c_retrieved limited_cursor) (c_batch_size limited_cursor) = 0 \<and>
   map g_ntoreturn
     (drop (length (sent (w_log limited_world)))
        (sent (w_log (snd (snd (refresh wire_constants two_batches limited_cursor
                                      limited_world)))))) = [3]"
proof -
  let ?c1 = "fst (ensure_session limited_cursor limited_world)"
  let ?w1 = "snd (ensure_session limited_cursor limited_world)"
  let ?oc = "make_getmore ?c1 7"
  have r: "refresh wire_constants two_batches limited_cursor limited_world
             = send_and_count wire_constants two_batches ?oc ?w1"
    by (rule refresh_getmore) (simp_all add: limited_cursor_state)
  have ok: "\<not> (client_encrypter (c_collection (snd ?oc)) \<and> c_exhaust (snd ?oc))"
    by (simp add: make_getmore_cursor get_read_preference_def ensure_session_def
          limited_cursor_collection sample_collection_def split: option.splits)
  have "sent (w_log (snd (snd (refresh wire_constants two_batches limited_cursor limited_world))))
          = sent (w_log limited_world) @ [fst ?oc]"
    unfolding r using send_and_count_world(1)[OF ok, of wire_constants two_batches ?w1]
    by (simp add: ensure_session_world)
  moreover have "g_ntoreturn (fst ?oc) = 3"
    by (simp add: make_getmore_op getmore_limit_def ensure_session_def limited_cursor_state)
  ultimately show ?thesis by (simp add: limited_cursor_state)
qed

subsection \<open>The empty range\<close>

text \<open>
  Claim C7, as the code has it: on a cursor that has not been used, the slice
  \<^verbatim>\<open>cursor[start:start]\<close> with \<open>0 \<le> start\<close> gives back the cursor with the empty flag set;
  from then on every call of \<^verbatim>\<open>next\<close> raises StopIteration and \<^verbatim>\<open>to_list\<close> returns the empty
  list, whatever the server and the world, and both leave the cursor and the world as
  they are: nothing is sent.
\<close>

theorem empty_slice:
  assumes "c_retrieved c = 0" "c_id c = None" "0 \<le> start" "c_exhaust_checked c"
  shows "getitem K srv c w (Slice (Some start) (Some start) None)
           = (Inr ItemCursor, c\<lparr>c_empty := True, c_skip := start, c_limit := 0\<rparr>, w)
     \<and> drain K srv' n (c\<lparr>c_empty := True, c_skip := start, c_limit := 0\<rparr>) w'
           = (replicate n (Inl StopIteration), c\<lparr>c_empty := True, c_skip := start, c_limit := 0\<rparr>, w')
     \<and> to_list K srv' (Suc n) (c\<lparr>c_empty := True, c_skip := start, c_limit := 0\<rparr>) w' None
           = (Some (Inr []), c\<lparr>c_empty := True, c_skip := start, c_limit := 0\<rparr>, w')"
  using assms
  by (simp add: getitem_def check_okay_to_chain_def drain_empty to_list_empty)

theorem empty_slice_witness:
  "fst (getitem wire_constants two_batches (find_cursor (default_args wire_constants)) world0
          (Slice (Some 5) (Some 5) None)) = Inr ItemCursor \<and>
   c_empty (fst (snd (getitem wire_constants two_batches
                        (find_cursor (default_args wire_constants)) world0
                        (Slice (Some 5) (Some 5) None)))) \<and>
   snd (snd (drain wire_constants two_batches (Suc (Suc 0))
               (fst (snd (getitem wire_constants two_batches
                            (find_cursor (default_args wire_constants)) world0
                            (Slice (Some 5) (Some 5) None)))) world0)) = world0"
  using empty_slice [where c="find_cursor (default_args wire_constants)" and start=5
                        and K=wire_constants and srv=two_batches and w=world0
                        and srv'=two_batches and n="Suc (Suc 0)" and w'=world0]
  by (simp add: sample_defs)

text \<open>
  Claim C7 as stated covers every slice with \<open>stop = start\<close>; \<^verbatim>\<open>cursor[-1:-1]\<close> raises
  IndexError and leaves the empty flag unset.
\<close>

theorem empty_slice_counterexample:
  "fst (getitem wire_constants two_batches (find_cursor (default_args wire_constants)) world0
          (Slice (Some (- 1)) (Some (- 1)) None)) = Inl IndexError \<and>
   \<not> c_empty (fst (snd (getitem wire_constants two_batches
                           (find_cursor (default_args wire_constants)) world0
                           (Slice (Some (- 1)) (Some (- 1)) None))))"
  by (simp add: getitem_def check_okay_to_chain_def sample_defs)

subsection \<open>Min and max need a hint\<close>

text \<open>
  Claim C8, as the code has it: on an unstarted cursor (no server cursor id, empty
  buffer) that has not been killed, with a min or a max bound and no hint, the refill
  raises InvalidOperation after binding a session and before any operation is sent; so
  does \<^verbatim>\<open>next\<close>, which reaches the refill unless the empty flag is set.
\<close>

theorem min_max_without_hint:
  assumes "c_id c = None" "c_data c = []" "\<not> c_killed c"
    "truthy_doc (c_min c) \<or> truthy_doc (c_max c)" "\<not> truthy_hint (c_hint c)"
  shows "refresh K srv c w = (Inl InvalidOperation, ensure_session c w)
    \<and> (\<not> c_empty c \<and> c_exhaust_checked c \<longrightarrow>
         cursor_next K srv c w = (Inl InvalidOperation, ensure_session c w))
    \<and> sent (w_log (snd (ensure_session c w))) = sent (w_log w)
    \<and> exchanges (snd (ensure_session c w)) = exchanges w"
proof -
  have r: "refresh K srv c w = (Inl InvalidOperation, ensure_session c w)"
    using assms by (auto simp: refresh_def ensure_session_def)
  then have "\<not> c_empty c \<and> c_exhaust_checked c \<longrightarrow>
         cursor_next K srv c w = (Inl InvalidOperation, ensure_session c w)"
    using assms(2) by (cases "ensure_session c w") (simp add: cursor_next_def check_exhaust_def)
  with r show ?thesis by (simp add: ensure_session_world)
qed

theorem min_max_without_hint_witness:
  "truthy_doc (c_min min_cursor) \<and> c_hint min_cursor = None \<and>
   fst (cursor_next wire_constants two_batches min_cursor world0) = Inl InvalidOperation \<and>
   exchanges (snd (snd (cursor_next wire_constants two_batches min_cursor world0))) = 0 \<and>
   sent (w_log (snd (snd (cursor_next wire_constants two_batches min_cursor world0)))) = []"
  using min_max_without_hint [where c=min_cursor and K=wire_constants and srv=two_batches and w=world0]
  by (simp add: min_cursor_def min_bound_def is_sequence_def check_okay_to_chain_def
        sample_defs truthy_doc_def truthy_hint_def ensure_session_def)

text \<open>
  Claim C8 as stated covers every unstarted cursor with a bound and no hint. The cursor
  of \<^verbatim>\<open>find().min([("a", 1)])\<close> closed before it is iterated still has no server cursor id,
  but it is killed: the refill returns at once and \<^verbatim>\<open>next\<close> raises StopIteration.
\<close>

theorem min_max_without_hint_counterexample:
  "truthy_doc (c_min closed_min_cursor) \<and> c_hint closed_min_cursor = None \<and>
   c_id closed_min_cursor = None \<and> c_data closed_min_cursor = [] \<and>
   refresh wire_constants two_batches closed_min_cursor world0
     = (Inr 0, closed_min_cursor, world0) \<and>
   cursor_next wire_constants two_batches closed_min_cursor world0
     = (Inl StopIteration, closed_min_cursor, world0)"
proof -
  have f: "truthy_doc (c_min closed_min_cursor)" "c_hint closed_min_cursor = None"
    "c_id closed_min_cursor = None" "c_data closed_min_cursor = []"
    "c_killed closed_min_cursor" "\<not> c_empty closed_min_cursor"
    "c_exhaust_checked closed_min_cursor"
    by (simp_all add: closed_min_cursor_def min_cursor_def min_bound_def is_sequence_def
          check_okay_to_chain_def sample_defs run_defs)
  then show ?thesis
    by (simp add: refresh_def cursor_next_def check_exhaust_def)
qed

subsection \<open>Closing keeps the buffer\<close>

text \<open>
  Claim C10: \<^verbatim>\<open>close\<close> leaves the buffer as it is and marks the cursor killed; the next
  \<open>k\<close> calls of \<^verbatim>\<open>next\<close> return the first \<open>k\<close> buffered documents in order without
  touching the world, \<^verbatim>\<open>alive\<close> is true as long as documents remain, and once the buffer
  is empty \<^verbatim>\<open>next\<close> raises StopIteration. The cursor is one that iterates: its empty flag
  is unset and its exhaust check is done, as on every cursor that holds documents.
\<close>

theorem close_keeps_buffer:
  assumes "\<not> c_empty c" "c_exhaust_checked c"
  shows "c_data (fst (snd (close c w))) = c_data c \<and> c_killed (fst (snd (close c w))) \<and>
    (\<forall>k \<le> length (c_data c).
        drain K srv k (fst (snd (close c w))) (snd (snd (close c w)))
          = (map Inr (take k (c_data c)),
             (fst (snd (close c w)))\<lparr>c_data := drop k (c_data c)\<rparr>, snd (snd (close c w)))
        \<and> alive ((fst (snd (close c w)))\<lparr>c_data := drop k (c_data c)\<rparr>) = (k < length (c_data c)))
    \<and> cursor_next K srv ((fst (snd (close c w)))\<lparr>c_data := []\<rparr>) (snd (snd (close c w)))
         = (Inl StopIteration, (fst (snd (close c w)))\<lparr>c_data := []\<rparr>, snd (snd (close c w)))"
proof -
  let ?c1 = "fst (snd (close c w))" and ?w1 = "snd (snd (close c w))"
  have c1: "c_data ?c1 = c_data c" "c_killed ?c1" "\<not> c_empty ?c1" "c_exhaust_checked ?c1"
    using assms by (simp_all add: close_cursor)
  have "drain K srv k ?c1 ?w1 = (map Inr (take k (c_data c)), ?c1\<lparr>c_data := drop k (c_data c)\<rparr>, ?w1)"
    if "k \<le> length (c_data c)" for k
    using drain_buffer[of ?c1 k K srv ?w1] c1 that by simp
  moreover have "alive (?c1\<lparr>c_data := drop k (c_data c)\<rparr>) = (k < length (c_data c))" for k
    using c1 by (auto simp: alive_def)
  moreover have "cursor_next K srv (?c1\<lparr>c_data := []\<rparr>) ?w1 = (Inl StopIteration, ?c1\<lparr>c_data := []\<rparr>, ?w1)"
    using c1 by (simp add: next_killed)
  ultimately show ?thesis using c1 by simp
qed

theorem close_keeps_buffer_witness:
  "c_data used_cursor = [sample_doc 2] \<and>
   alive (fst (snd (close used_cursor world0))) \<and>
   fst (drain wire_constants always_gone (Suc 0) (fst (snd (close used_cursor world0)))
          (snd (snd (close used_cursor world0)))) = [Inr (sample_doc 2)]"
proof -
  note t = close_keeps_buffer [where c=used_cursor and K=wire_constants and srv=always_gone
                                 and w=world0]
  have a: "\<not> c_empty used_cursor" "c_exhaust_checked used_cursor"
    by (simp_all add: used_cursor_fields)
  from t[OF a] have d: "c_data (fst (snd (close used_cursor world0))) = c_data used_cursor"
    and k: "\<forall>k\<le>length (c_data used_cursor).
        drain wire_constants always_gone k (fst (snd (close used_cursor world0)))
          (snd (snd (close used_cursor world0)))
          = (map Inr (take k (c_data used_cursor)),
             (fst (snd (close used_cursor world0)))\<lparr>c_data := drop k (c_data used_cursor)\<rparr>,
             snd (snd (close used_cursor world0)))
        \<and> alive ((fst (snd (close used_cursor world0)))\<lparr>c_data := drop k (c_data used_cursor)\<rparr>)
            = (k < length (c_data used_cursor))"
    by blast+
  from k[rule_format, of "Suc 0"] d show ?thesis
    by (simp add: used_cursor_state alive_def)
qed

subsection \<open>The limit\<close>




end
